theory Spec2Isabelle
  imports Main "HOL-Library.AList" "HOL-Library.Word"
begin

section \<open>Memos Sync (plugin-obsidian/main.ts): the data model\<close>

text \<open>
  The plugin mirrors the memos and resources returned by \<^verbatim>\<open>fetchMemosWithResource\<close>
  into two folders of an Obsidian vault. The method \<^verbatim>\<open>sync\<close> (main.ts, lines 47-147)
  is embedded as the function \<open>sync\<close> on an explicit world state.

  Modelling decisions:
  \<^item> JavaScript numbers that occur here (\<^verbatim>\<open>updatedTs\<close>, \<^verbatim>\<open>lastSyncTime\<close>,
    \<^verbatim>\<open>Date.now()\<close>) are integer time stamps; they are of type \<open>int\<close>.
  \<^item> A memo id is rendered into a path by a template string; it is a \<open>string\<close>.
    The record fields of a memo are called \<open>memo_id\<close> and \<open>memo_content\<close>, the
    content of a resource \<open>resource_content\<close>.
  \<^item> The vault is an association list from paths to file contents, together with the
    list of folders. \<^verbatim>\<open>adapter.exists\<close> is true for the path of a file and for the
    path of a folder; \<^verbatim>\<open>adapter.list\<close> is the flat listing of one folder: the
    paths of the files directly inside it.
  \<^item> The adapter and the fetch are outside this repository. Which adapter calls reject
    is given by an oracle \<open>faulty\<close> on calls (a call that is not faulty takes effect,
    a faulty call changes nothing); the result of the fetch is given by the function
    \<open>fetchMemosWithResource\<close>; the clock by \<open>now\<close>.
  \<^item> Every call of the adapter returns a promise. A call takes effect when it is
    issued, and its promise settles later: promises settle in the order in which the calls
    were issued, and the code that awaits a promise continues when it settles. So the
    second part of an \<^verbatim>\<open>async\<close> callback of \<^verbatim>\<open>forEach\<close> runs after the body of
    \<^verbatim>\<open>sync\<close> has issued its next awaited call and before the body continues with the
    result of that call; after the last loop it runs when the body has returned.
    A promise that is not awaited by the body of \<^verbatim>\<open>sync\<close> (the \<^verbatim>\<open>write\<close> of a
    memo, everything inside an \<^verbatim>\<open>async\<close> callback of \<^verbatim>\<open>forEach\<close>) cannot reach
    the \<^verbatim>\<open>catch\<close> block when it rejects.
  \<^item> \<^verbatim>\<open>loadData\<close> and \<^verbatim>\<open>saveData\<close> do not fail.
\<close>

type_synonym path = string

record Memo =
  memo_id :: string
  memo_content :: string
  updatedTs :: int

record Resource =
  filename :: string
  resource_content :: "8 word list"

record Snapshot =
  memos :: "Memo list"
  resources :: "Resource list"

text \<open>The interface \<^verbatim>\<open>MemosSyncPluginSettings\<close> (lines 4-9).\<close>

record MemosSyncPluginSettings =
  openAPI :: string
  folderToSync :: string
  debug :: bool
  lastSyncTime :: "int option"

text \<open>
  The object stored by \<^verbatim>\<open>saveData\<close> and returned by \<^verbatim>\<open>loadData\<close>: any of
  the fields may be missing (nothing has been stored yet, or an older version stored it).
\<close>

record SavedData =
  s_openAPI :: "string option"
  s_folderToSync :: "string option"
  s_debug :: "bool option"
  s_lastSyncTime :: "int option"

datatype file_data = Text string | Binary "8 word list"

text \<open>The calls of the vault adapter that \<^verbatim>\<open>sync\<close> issues.\<close>

datatype store_op =
    OpExists path
  | OpCreateFolder path
  | OpWrite path
  | OpWriteBinary path
  | OpList path
  | OpRemove path

datatype error = AuthError | NetworkError | ProtocolError | IOError store_op

record world =
  files :: "(path \<times> file_data) list"
  folders :: "path list"
  data :: SavedData
  settings :: MemosSyncPluginSettings
  notices :: "(string \<times> nat option) list"
  console :: "error list"
  calls :: "store_op list"
  fetched :: "string list"

text \<open>
  \<open>files\<close> and \<open>folders\<close> are the vault, \<open>data\<close> is the persisted plugin data,
  \<open>settings\<close> is the field \<^verbatim>\<open>this.settings\<close>, \<open>notices\<close> are the \<^verbatim>\<open>Notice\<close>
  objects shown to the user (message and duration), \<open>console\<close> is what went to
  \<^verbatim>\<open>console.error\<close>, \<open>calls\<close> is the sequence of adapter calls issued so far and
  \<open>fetched\<close> the credentials with which the remote service was called.
\<close>

definition lookup :: "world \<Rightarrow> path \<Rightarrow> file_data option" where
  "lookup w p = map_of (files w) p"

section \<open>Settings (lines 11-45)\<close>

definition DEFAULT_SETTINGS :: MemosSyncPluginSettings where
  "DEFAULT_SETTINGS =
     \<lparr>openAPI = '''', folderToSync = ''Memos Sync'', debug = False, lastSyncTime = None\<rparr>"

text \<open>\<^verbatim>\<open>Object.assign({}, DEFAULT_SETTINGS, data)\<close>: the fields present in \<open>d\<close> win.\<close>

definition assign_settings :: "MemosSyncPluginSettings \<Rightarrow> SavedData \<Rightarrow> MemosSyncPluginSettings" where
  "assign_settings dflt d =
     \<lparr>openAPI = (case s_openAPI d of Some x \<Rightarrow> x | None \<Rightarrow> openAPI dflt),
      folderToSync = (case s_folderToSync d of Some x \<Rightarrow> x | None \<Rightarrow> folderToSync dflt),
      debug = (case s_debug d of Some x \<Rightarrow> x | None \<Rightarrow> debug dflt),
      lastSyncTime = (case s_lastSyncTime d of Some x \<Rightarrow> Some x | None \<Rightarrow> lastSyncTime dflt)\<rparr>"

definition loadSettings :: "world \<Rightarrow> world" where
  "loadSettings w = w\<lparr>settings := assign_settings DEFAULT_SETTINGS (data w)\<rparr>"

definition saveData :: "SavedData \<Rightarrow> world \<Rightarrow> world" where
  "saveData d w = w\<lparr>data := d\<rparr>"

text \<open>The object \<^verbatim>\<open>{...this.settings, lastSyncTime: t}\<close> (lines 136-139).\<close>

definition checkpoint :: "MemosSyncPluginSettings \<Rightarrow> int \<Rightarrow> SavedData" where
  "checkpoint s t =
     \<lparr>s_openAPI = Some (openAPI s), s_folderToSync = Some (folderToSync s),
      s_debug = Some (debug s), s_lastSyncTime = Some t\<rparr>"

definition plugin_log :: "string \<Rightarrow> nat option \<Rightarrow> world \<Rightarrow> world" where
  "plugin_log message duration w = w\<lparr>notices := notices w @ [(message, duration)]\<rparr>"

definition plugin_debug :: "string \<Rightarrow> world \<Rightarrow> world" where
  "plugin_debug message w =
     (if debug (settings w) then w\<lparr>notices := notices w @ [(message, Some 0)]\<rparr> else w)"

definition console_error :: "error \<Rightarrow> world \<Rightarrow> world" where
  "console_error e w = w\<lparr>console := console w @ [e]\<rparr>"

text \<open>Numbers inside template strings are printed in decimal.\<close>

function show_nat :: "nat \<Rightarrow> string" where
  "show_nat n =
     (if n < 10 then [''0123456789'' ! n]
      else show_nat (n div 10) @ [''0123456789'' ! (n mod 10)])"
  by pat_completeness auto
termination
  by (relation "measure (\<lambda>n. n)") auto

declare show_nat.simps [simp del]

definition show_int :: "int \<Rightarrow> string" where
  "show_int i = (if i < 0 then ''-'' @ show_nat (nat (- i)) else show_nat (nat i))"

section \<open>The vault adapter\<close>

text \<open>
  \<open>in_folder dir p\<close>: the path \<open>p\<close> names an entry directly inside the folder \<open>dir\<close>.
\<close>

definition in_folder :: "path \<Rightarrow> path \<Rightarrow> bool" where
  "in_folder dir p =
     (take (length dir + 1) p = dir @ ''/'' \<and> CHR ''/'' \<notin> set (drop (length dir + 1) p))"

definition issue :: "store_op \<Rightarrow> world \<Rightarrow> world" where
  "issue c w = w\<lparr>calls := calls w @ [c]\<rparr>"

definition adapter_exists :: "(store_op \<Rightarrow> bool) \<Rightarrow> path \<Rightarrow> world \<Rightarrow> (error + bool) \<times> world" where
  "adapter_exists faulty p w =
     (if faulty (OpExists p) then (Inl (IOError (OpExists p)), issue (OpExists p) w)
      else (Inr (p \<in> set (map fst (files w)) \<or> p \<in> set (folders w)), issue (OpExists p) w))"

definition vault_createFolder :: "(store_op \<Rightarrow> bool) \<Rightarrow> path \<Rightarrow> world \<Rightarrow> (error + unit) \<times> world" where
  "vault_createFolder faulty p w =
     (if faulty (OpCreateFolder p) then (Inl (IOError (OpCreateFolder p)), issue (OpCreateFolder p) w)
      else (Inr (), issue (OpCreateFolder p) (w\<lparr>folders := folders w @ [p]\<rparr>)))"

definition adapter_write :: "(store_op \<Rightarrow> bool) \<Rightarrow> path \<Rightarrow> string \<Rightarrow> world \<Rightarrow> (error + unit) \<times> world" where
  "adapter_write faulty p c w =
     (if faulty (OpWrite p) then (Inl (IOError (OpWrite p)), issue (OpWrite p) w)
      else (Inr (), issue (OpWrite p) (w\<lparr>files := AList.update p (Text c) (files w)\<rparr>)))"

definition adapter_writeBinary :: "(store_op \<Rightarrow> bool) \<Rightarrow> path \<Rightarrow> 8 word list \<Rightarrow> world \<Rightarrow> (error + unit) \<times> world" where
  "adapter_writeBinary faulty p c w =
     (if faulty (OpWriteBinary p) then (Inl (IOError (OpWriteBinary p)), issue (OpWriteBinary p) w)
      else (Inr (), issue (OpWriteBinary p) (w\<lparr>files := AList.update p (Binary c) (files w)\<rparr>)))"

definition adapter_list :: "(store_op \<Rightarrow> bool) \<Rightarrow> path \<Rightarrow> world \<Rightarrow> (error + path list) \<times> world" where
  "adapter_list faulty p w =
     (if faulty (OpList p) then (Inl (IOError (OpList p)), issue (OpList p) w)
      else (Inr (filter (in_folder p) (map fst (files w))), issue (OpList p) w))"

definition adapter_remove :: "(store_op \<Rightarrow> bool) \<Rightarrow> path \<Rightarrow> world \<Rightarrow> (error + unit) \<times> world" where
  "adapter_remove faulty p w =
     (if faulty (OpRemove p) then (Inl (IOError (OpRemove p)), issue (OpRemove p) w)
      else (Inr (), issue (OpRemove p) (w\<lparr>files := AList.delete p (files w)\<rparr>)))"

definition no_faults :: "store_op \<Rightarrow> bool" where
  "no_faults c = False"

section \<open>sync (lines 47-147)\<close>

definition memoPath :: "string \<Rightarrow> Memo \<Rightarrow> path" where
  "memoPath folder memo = folder @ ''/memos/'' @ memo_id memo @ ''.md''"

definition resourcePath :: "string \<Rightarrow> Resource \<Rightarrow> path" where
  "resourcePath folder resource = folder @ ''/resources/'' @ filename resource"

text \<open>Lines 67-71 and 72-78: check, then create.\<close>

definition ensure_folder :: "(store_op \<Rightarrow> bool) \<Rightarrow> path \<Rightarrow> string \<Rightarrow> world \<Rightarrow> (error + unit) \<times> world" where
  "ensure_folder faulty p message w =
     (case adapter_exists faulty p w of
        (Inl e, w1) \<Rightarrow> (Inl e, w1)
      | (Inr isFolderExists, w1) \<Rightarrow>
          if \<not> isFolderExists then
            (case vault_createFolder faulty p w1 of
               (Inl e, w2) \<Rightarrow> (Inl e, w2)
             | (Inr u, w2) \<Rightarrow> (Inr (), plugin_debug message w2))
          else (Inr (), w1))"

text \<open>
  Line 85: \<^verbatim>\<open>lastSyncTime && lastUpdated * 1000 < lastSyncTime\<close>. The left operand is
  falsy when \<^verbatim>\<open>lastSyncTime\<close> is undefined and when it is 0.
\<close>

definition skip_memo :: "int option \<Rightarrow> Memo \<Rightarrow> bool" where
  "skip_memo lst memo =
     (case lst of None \<Rightarrow> False | Some t \<Rightarrow> t \<noteq> 0 \<and> updatedTs memo * 1000 < t)"

text \<open>The callback of lines 80-95. The promise of \<^verbatim>\<open>adapter.write\<close> is dropped.\<close>

definition sync_memo :: "(store_op \<Rightarrow> bool) \<Rightarrow> string \<Rightarrow> int option \<Rightarrow> Memo \<Rightarrow> world \<Rightarrow> world" where
  "sync_memo faulty folder lst memo w =
     (if skip_memo lst memo then
        plugin_debug (''Skip memo '' @ memo_id memo @ '', because '' @
          show_int (updatedTs memo * 1000) @ '' < '' @ (case lst of Some t \<Rightarrow> show_int t | None \<Rightarrow> ''undefined'')) w
      else
        plugin_debug (''Synced memo: '' @ memo_id memo)
          (snd (adapter_write faulty (memoPath folder memo) (memo_content memo) w)))"

text \<open>
  An \<^verbatim>\<open>async\<close> callback of \<^verbatim>\<open>forEach\<close> runs up to its \<^verbatim>\<open>await\<close> when
  \<^verbatim>\<open>forEach\<close> calls it, and continues with the result of the awaited call later, when
  the body of \<^verbatim>\<open>sync\<close> has itself reached an \<^verbatim>\<open>await\<close> or has returned.
  \<open>start_all f xs\<close> runs the first part of the callback for every element and keeps the
  element with the result of its awaited call; \<open>resume_all g\<close> runs the second parts, in
  the order in which the calls were issued.
\<close>

fun start_all :: "('a \<Rightarrow> world \<Rightarrow> 'r \<times> world) \<Rightarrow> 'a list \<Rightarrow> world \<Rightarrow> ('a \<times> 'r) list \<times> world" where
  "start_all f [] w = ([], w)"
| "start_all f (x # xs) w =
     (case f x w of (r, w1) \<Rightarrow>
        (case start_all f xs w1 of (pending, w2) \<Rightarrow> ((x, r) # pending, w2)))"

definition resume_all :: "('a \<Rightarrow> 'r \<Rightarrow> world \<Rightarrow> world) \<Rightarrow> ('a \<times> 'r) list \<Rightarrow> world \<Rightarrow> world" where
  "resume_all g pending w = fold (\<lambda>(x, r). g x r) pending w"

text \<open>
  The async callback of lines 97-108, up to the \<^verbatim>\<open>await\<close> of line 100 and after it.
  When \<^verbatim>\<open>adapter.exists\<close> rejects, the callback's own promise rejects, and
  \<^verbatim>\<open>forEach\<close> has dropped it. The promise of \<^verbatim>\<open>adapter.writeBinary\<close> is dropped.
\<close>

definition sync_resource_start :: "(store_op \<Rightarrow> bool) \<Rightarrow> string \<Rightarrow> Resource \<Rightarrow> world \<Rightarrow> (error + bool) \<times> world" where
  "sync_resource_start faulty folder resource w =
     adapter_exists faulty (resourcePath folder resource) w"

definition sync_resource_resume :: "(store_op \<Rightarrow> bool) \<Rightarrow> string \<Rightarrow> Resource \<Rightarrow> error + bool \<Rightarrow> world \<Rightarrow> world" where
  "sync_resource_resume faulty folder resource isResourceExists w =
     (case isResourceExists of
        Inl e \<Rightarrow> w
      | Inr True \<Rightarrow> w
      | Inr False \<Rightarrow>
          plugin_debug (''Synced resource: '' @ filename resource)
            (snd (adapter_writeBinary faulty (resourcePath folder resource)
                    (resource_content resource) w)))"

text \<open>
  The async callbacks of lines 119-124 and 127-132, up to the \<^verbatim>\<open>await\<close> of
  \<^verbatim>\<open>adapter.remove\<close> and after it: \<open>inAPI\<close> are the expected paths, \<open>p\<close> is one path
  of the listing, \<open>kind\<close> is the word in the debug message. A callback whose path is
  expected awaits nothing (\<open>None\<close>).
\<close>

definition delete_orphan_start :: "(store_op \<Rightarrow> bool) \<Rightarrow> path list \<Rightarrow> path \<Rightarrow> world \<Rightarrow> (error + unit) option \<times> world" where
  "delete_orphan_start faulty inAPI p w =
     (if p \<notin> set inAPI then
        (case adapter_remove faulty p w of (r, w1) \<Rightarrow> (Some r, w1))
      else (None, w))"

definition delete_orphan_resume :: "string \<Rightarrow> path \<Rightarrow> (error + unit) option \<Rightarrow> world \<Rightarrow> world" where
  "delete_orphan_resume kind p removed w =
     (case removed of
        Some (Inr u) \<Rightarrow> plugin_debug (''Deleted '' @ kind @ '': '' @ p) w
      | Some (Inl e) \<Rightarrow> w
      | None \<Rightarrow> w)"

text \<open>
  Lines 80-118: the loop over the memos; the loop over the resources, which issues every
  existence check; the listing of the memos folder is issued; while the body awaits the
  listing, the callbacks of the resources continue.
\<close>

definition sync_items ::
  "(store_op \<Rightarrow> bool) \<Rightarrow> string \<Rightarrow> int option \<Rightarrow> Snapshot \<Rightarrow> world \<Rightarrow> (error + path list) \<times> world" where
  "sync_items faulty folder lst res w =
     (case start_all (sync_resource_start faulty folder) (resources res)
             (fold (sync_memo faulty folder lst) (memos res) w) of
        (pending, w1) \<Rightarrow>
     (case adapter_list faulty (folder @ ''/memos'') w1 of
        (memosInVault, w2) \<Rightarrow>
          (memosInVault, resume_all (sync_resource_resume faulty folder) pending w2)))"

text \<open>
  Lines 119-126: the loop over the listing of the memos folder issues the removals; the
  listing of the resources folder is issued; while the body awaits it, the callbacks of
  the removals continue.
\<close>

definition delete_memos ::
  "(store_op \<Rightarrow> bool) \<Rightarrow> string \<Rightarrow> Snapshot \<Rightarrow> path list \<Rightarrow> world \<Rightarrow> (error + path list) \<times> world" where
  "delete_memos faulty folder res memosInVault w =
     (case start_all (delete_orphan_start faulty (map (memoPath folder) (memos res))) memosInVault w of
        (pending, w1) \<Rightarrow>
     (case adapter_list faulty (folder @ ''/resources'') w1 of
        (resourcesInVault, w2) \<Rightarrow>
          (resourcesInVault, resume_all (delete_orphan_resume ''memo'') pending w2)))"

text \<open>
  Lines 127-139: the loop over the listing of the resources folder issues the removals;
  the success notice; the checkpoint is saved; the body returns, and the callbacks of the
  removals continue.
\<close>

definition delete_resources ::
  "(store_op \<Rightarrow> bool) \<Rightarrow> int \<Rightarrow> string \<Rightarrow> Snapshot \<Rightarrow> path list \<Rightarrow> world \<Rightarrow> world" where
  "delete_resources faulty now folder res resourcesInVault w =
     (case start_all (delete_orphan_start faulty (map (resourcePath folder) (resources res)))
             resourcesInVault w of
        (pending, w1) \<Rightarrow>
          resume_all (delete_orphan_resume ''resource'') pending
            (saveData (checkpoint (settings w1) now)
               (plugin_log ''Sync memos successfully.'' None w1)))"

text \<open>Lines 64-139: the part of the \<^verbatim>\<open>try\<close> block after a successful fetch.\<close>

definition apply_snapshot ::
  "(store_op \<Rightarrow> bool) \<Rightarrow> int \<Rightarrow> string \<Rightarrow> int option \<Rightarrow> Snapshot \<Rightarrow> world \<Rightarrow> (error + unit) \<times> world" where
  "apply_snapshot faulty now folder lst res w =
     (case ensure_folder faulty (folder @ ''/memos'') ''Created memos folder.'' w of
        (Inl e, w1) \<Rightarrow> (Inl e, w1)
      | (Inr u, w1) \<Rightarrow>
     (case ensure_folder faulty (folder @ ''/resources'') ''Created resources folder.'' w1 of
        (Inl e, w2) \<Rightarrow> (Inl e, w2)
      | (Inr u, w2) \<Rightarrow>
     (case sync_items faulty folder lst res w2 of
        (Inl e, w3) \<Rightarrow> (Inl e, w3)
      | (Inr memosInVault, w3) \<Rightarrow>
     (case delete_memos faulty folder res memosInVault w3 of
        (Inl e, w4) \<Rightarrow> (Inl e, w4)
      | (Inr resourcesInVault, w4) \<Rightarrow>
          (Inr (), delete_resources faulty now folder res resourcesInVault w4)))))"

text \<open>Lines 56-139: the \<^verbatim>\<open>try\<close> block.\<close>

definition sync_try ::
  "(string \<Rightarrow> error + Snapshot) \<Rightarrow> (store_op \<Rightarrow> bool) \<Rightarrow> int \<Rightarrow> string \<Rightarrow> string \<Rightarrow> int option \<Rightarrow>
     world \<Rightarrow> (error + unit) \<times> world" where
  "sync_try fetchMemosWithResource faulty now key folder lst w =
     (let w1 = plugin_log ''Start syncing memos.'' None w;
          w2 = w1\<lparr>fetched := fetched w1 @ [key]\<rparr>
      in case fetchMemosWithResource key of
           Inl e \<Rightarrow> (Inl e, w2)
         | Inr res \<Rightarrow>
             apply_snapshot faulty now folder lst res
               (plugin_debug (''Fetch memos from API successfully. Total: '' @
                                show_nat (length (memos res))) w2))"

definition sync :: "(string \<Rightarrow> error + Snapshot) \<Rightarrow> (store_op \<Rightarrow> bool) \<Rightarrow> int \<Rightarrow> world \<Rightarrow> world" where
  "sync fetchMemosWithResource faulty now w =
     (let w0 = loadSettings w;
          key = openAPI (settings w0);
          folder = folderToSync (settings w0);
          lst = lastSyncTime (settings w0)
      in if key = '''' then plugin_log ''Please enter your OpenAPI key.'' None w0
         else
           (case sync_try fetchMemosWithResource faulty now key folder lst w0 of
              (Inr u, w1) \<Rightarrow> w1
            | (Inl e, w1) \<Rightarrow>
                console_error e
                  (plugin_log ''Failed to sync memos. Please check your OpenAPI key and network.''
                     (Some 0) w1)))"

section \<open>Notions used in the statements\<close>

text \<open>
  \<open>issued w w'\<close>: the adapter calls that were issued between the worlds \<open>w\<close> and
  \<open>w'\<close>. \<open>started res w\<close>: the world at line 63, when the settings are loaded, the
  start notice is shown and the fetch has returned \<open>res\<close>. \<open>run_completes\<close>: the
  credential is not empty, the fetch succeeds and no awaited adapter call of the run
  rejects (the two existence checks, a folder creation that is needed, the two listings),
  so that control reaches line 136. \<open>reaches\<close>: the two folder checks of lines 67-78
  pass, so that control reaches line 80.

  \<open>memo_orphan folder res w p\<close>: \<open>p\<close> is a file of \<open>w\<close> directly inside the memos
  folder and is not the path of a memo of \<open>res\<close>; \<open>resource_orphan\<close> likewise for
  the resources folder. \<open>folder_calls\<close>, \<open>resource_calls\<close> and \<open>orphan_calls\<close>
  describe the calls that lines 67-78, 97-108 and 118-132 issue.

  \<open>shown w w'\<close>: the notices that were shown between the worlds \<open>w\<close> and \<open>w'\<close>.
  \<open>silent ns\<close>: neither the success notice of line 134 nor the failure notice of
  line 141 is among \<open>ns\<close>. \<open>quiet_step w w'\<close>: from \<open>w\<close> to \<open>w'\<close> notices were
  only added, and the added ones are silent.
\<close>

definition issued :: "world \<Rightarrow> world \<Rightarrow> store_op list" where
  "issued w w' = drop (length (calls w)) (calls w')"

definition started :: "Snapshot \<Rightarrow> world \<Rightarrow> world" where
  "started res w =
     plugin_debug (''Fetch memos from API successfully. Total: '' @ show_nat (length (memos res)))
       ((plugin_log ''Start syncing memos.'' None (loadSettings w))
          \<lparr>fetched := fetched w @ [openAPI (settings (loadSettings w))]\<rparr>)"

definition run_completes :: "(string \<Rightarrow> error + Snapshot) \<Rightarrow> (store_op \<Rightarrow> bool) \<Rightarrow> world \<Rightarrow> bool" where
  "run_completes fetchMemosWithResource faulty w =
     (let s = settings (loadSettings w);
          m = folderToSync s @ ''/memos'';
          r = folderToSync s @ ''/resources''
      in openAPI s \<noteq> ''''
       \<and> (case fetchMemosWithResource (openAPI s) of Inl e \<Rightarrow> False | Inr res \<Rightarrow> True)
       \<and> \<not> faulty (OpExists m)
       \<and> (lookup w m \<noteq> None \<or> m \<in> set (folders w) \<or> \<not> faulty (OpCreateFolder m))
       \<and> \<not> faulty (OpExists r)
       \<and> (lookup w r \<noteq> None \<or> r \<in> set (folders w) \<or> \<not> faulty (OpCreateFolder r))
       \<and> \<not> faulty (OpList m) \<and> \<not> faulty (OpList r))"

definition reaches :: "(store_op \<Rightarrow> bool) \<Rightarrow> string \<Rightarrow> world \<Rightarrow> bool" where
  "reaches faulty folder w =
     (\<not> faulty (OpExists (folder @ ''/memos''))
      \<and> (lookup w (folder @ ''/memos'') \<noteq> None \<or> folder @ ''/memos'' \<in> set (folders w)
           \<or> \<not> faulty (OpCreateFolder (folder @ ''/memos'')))
      \<and> \<not> faulty (OpExists (folder @ ''/resources''))
      \<and> (lookup w (folder @ ''/resources'') \<noteq> None \<or> folder @ ''/resources'' \<in> set (folders w)
           \<or> \<not> faulty (OpCreateFolder (folder @ ''/resources''))))"

definition folder_calls :: "store_op list \<Rightarrow> bool" where
  "folder_calls E = (\<forall>c \<in> set E. \<exists>p. c = OpExists p \<or> c = OpCreateFolder p)"

definition resource_calls :: "string \<Rightarrow> Snapshot \<Rightarrow> world \<Rightarrow> store_op list \<Rightarrow> bool" where
  "resource_calls folder res w R =
     ((\<forall>r \<in> set (resources res). OpExists (resourcePath folder r) \<in> set R)
      \<and> (\<forall>c \<in> set R. \<exists>r \<in> set (resources res).
            c = OpExists (resourcePath folder r)
            \<or> c = OpWriteBinary (resourcePath folder r) \<and> lookup w (resourcePath folder r) = None))"

definition memo_orphan :: "string \<Rightarrow> Snapshot \<Rightarrow> world \<Rightarrow> path \<Rightarrow> bool" where
  "memo_orphan folder res w p =
     (lookup w p \<noteq> None \<and> in_folder (folder @ ''/memos'') p
      \<and> p \<notin> set (map (memoPath folder) (memos res)))"

definition resource_orphan :: "string \<Rightarrow> Snapshot \<Rightarrow> world \<Rightarrow> path \<Rightarrow> bool" where
  "resource_orphan folder res w p =
     (lookup w p \<noteq> None \<and> in_folder (folder @ ''/resources'') p
      \<and> p \<notin> set (map (resourcePath folder) (resources res)))"

definition orphan_calls :: "(store_op \<Rightarrow> bool) \<Rightarrow> string \<Rightarrow> Snapshot \<Rightarrow> world \<Rightarrow> store_op list \<Rightarrow> bool" where
  "orphan_calls faulty folder res w D =
     ((\<forall>c \<in> set D. (\<exists>p. c = OpList p)
          \<or> (\<exists>p. c = OpRemove p \<and> (memo_orphan folder res w p \<or> resource_orphan folder res w p)))
      \<and> (\<not> faulty (OpList (folder @ ''/memos'')) \<longrightarrow>
           (\<forall>p. memo_orphan folder res w p \<longrightarrow> OpRemove p \<in> set D))
      \<and> (\<not> faulty (OpList (folder @ ''/memos'')) \<and> \<not> faulty (OpList (folder @ ''/resources'')) \<longrightarrow>
           (\<forall>p. resource_orphan folder res w p \<longrightarrow> OpRemove p \<in> set D)))"


definition silent :: "(string \<times> nat option) list \<Rightarrow> bool" where
  "silent ns =
     ((''Sync memos successfully.'', None) \<notin> set ns
      \<and> (''Failed to sync memos. Please check your OpenAPI key and network.'', Some 0) \<notin> set ns)"


section \<open>Example vaults and snapshots\<close>

definition example_snapshot :: Snapshot where
  "example_snapshot =
     \<lparr>memos = [\<lparr>memo_id = ''a'', memo_content = ''hello'', updatedTs = 1000\<rparr>],
      resources = [\<lparr>filename = ''img.png'', resource_content = [137, 80, 78, 71]\<rparr>]\<rparr>"

definition example_fetch :: "string \<Rightarrow> error + Snapshot" where
  "example_fetch key = (if key = ''secret'' then Inr example_snapshot else Inl AuthError)"

definition example_vault :: world where
  "example_vault =
     \<lparr>files = [], folders = [],
      data = \<lparr>s_openAPI = Some ''secret'', s_folderToSync = Some ''V'', s_debug = Some False,
               s_lastSyncTime = None\<rparr>,
      settings = DEFAULT_SETTINGS, notices = [], console = [], calls = [], fetched = []\<rparr>"

definition used_vault :: world where
  "used_vault = example_vault
     \<lparr>files := [(''V/memos/a.md'', Text ''old''), (''V/memos/b.md'', Text ''gone''),
                (''V/resources/img.png'', Binary [1]), (''V/resources/x.bin'', Binary [2])],
      folders := [''V'', ''V/memos'', ''V/resources'']\<rparr>"

definition unconfigured_vault :: world where
  "unconfigured_vault = example_vault
     \<lparr>data := \<lparr>s_openAPI = None, s_folderToSync = None, s_debug = None, s_lastSyncTime = None\<rparr>\<rparr>"

definition failing_fetch :: "string \<Rightarrow> error + Snapshot" where
  "failing_fetch key = Inl NetworkError"

definition checkpointed_vault :: world where
  "checkpointed_vault = used_vault
     \<lparr>data := \<lparr>s_openAPI = Some ''secret'', s_folderToSync = Some ''V'', s_debug = Some False,
                s_lastSyncTime = Some 2000000\<rparr>\<rparr>"

definition zero_vault :: world where
  "zero_vault = used_vault
     \<lparr>data := \<lparr>s_openAPI = Some ''secret'', s_folderToSync = Some ''V'', s_debug = Some False,
                s_lastSyncTime = Some 0\<rparr>\<rparr>"

definition backdated_memo :: Memo where
  "backdated_memo = \<lparr>memo_id = ''a'', memo_content = ''rewritten'', updatedTs = - 1\<rparr>"

definition backdated_snapshot :: Snapshot where
  "backdated_snapshot = \<lparr>memos = [backdated_memo], resources = []\<rparr>"

definition backdated_fetch :: "string \<Rightarrow> error + Snapshot" where
  "backdated_fetch key = Inr backdated_snapshot"


definition debug_vault :: world where
  "debug_vault = example_vault
     \<lparr>data := \<lparr>s_openAPI = Some ''secret'', s_folderToSync = Some ''V'', s_debug = Some True,
                s_lastSyncTime = None\<rparr>\<rparr>"

definition debug_used_vault :: world where
  "debug_used_vault = used_vault
     \<lparr>data := \<lparr>s_openAPI = Some ''secret'', s_folderToSync = Some ''V'', s_debug = Some True,
                s_lastSyncTime = None\<rparr>\<rparr>"

definition duplicate_snapshot :: Snapshot where
  "duplicate_snapshot =
     \<lparr>memos = [],
      resources = [\<lparr>filename = ''x.bin'', resource_content = [1]\<rparr>,
                   \<lparr>filename = ''x.bin'', resource_content = [2]\<rparr>]\<rparr>"

definition duplicate_fetch :: "string \<Rightarrow> error + Snapshot" where
  "duplicate_fetch key = Inr duplicate_snapshot"

definition hello_memo :: Memo where
  "hello_memo = \<lparr>memo_id = ''a'', memo_content = ''hello'', updatedTs = 1000\<rparr>"

definition img_resource :: Resource where
  "img_resource = \<lparr>filename = ''img.png'', resource_content = [137, 80, 78, 71]\<rparr>"

section \<open>Lemmas\<close>

lemma plugin_log_fields [simp]:
  "files (plugin_log m d w) = files w" "folders (plugin_log m d w) = folders w"
  "data (plugin_log m d w) = data w" "settings (plugin_log m d w) = settings w"
  "console (plugin_log m d w) = console w" "calls (plugin_log m d w) = calls w"
  "fetched (plugin_log m d w) = fetched w"
  "notices (plugin_log m d w) = notices w @ [(m, d)]"
  by (simp_all add: plugin_log_def)

lemma plugin_debug_fields [simp]:
  "files (plugin_debug m w) = files w" "folders (plugin_debug m w) = folders w"
  "data (plugin_debug m w) = data w" "settings (plugin_debug m w) = settings w"
  "console (plugin_debug m w) = console w" "calls (plugin_debug m w) = calls w"
  "fetched (plugin_debug m w) = fetched w"
  by (simp_all add: plugin_debug_def)

lemma issue_fields [simp]:
  "files (issue c w) = files w" "folders (issue c w) = folders w"
  "data (issue c w) = data w" "settings (issue c w) = settings w"
  "console (issue c w) = console w" "calls (issue c w) = calls w @ [c]"
  "fetched (issue c w) = fetched w" "notices (issue c w) = notices w"
  by (simp_all add: issue_def)

lemma loadSettings_fields [simp]:
  "files (loadSettings w) = files w" "folders (loadSettings w) = folders w"
  "data (loadSettings w) = data w" 
  "console (loadSettings w) = console w" "calls (loadSettings w) = calls w"
  "fetched (loadSettings w) = fetched w" "notices (loadSettings w) = notices w"
  "settings (loadSettings w) = assign_settings DEFAULT_SETTINGS (data w)"
  by (simp_all add: loadSettings_def)

lemma console_error_fields [simp]:
  "files (console_error e w) = files w" "folders (console_error e w) = folders w"
  "data (console_error e w) = data w" "settings (console_error e w) = settings w"
  "console (console_error e w) = console w @ [e]" "calls (console_error e w) = calls w"
  "fetched (console_error e w) = fetched w" "notices (console_error e w) = notices w"
  by (simp_all add: console_error_def)

lemma lookup_simps [simp]:
  "lookup (plugin_log m d w) p = lookup w p"
  "lookup (plugin_debug m w) p = lookup w p"
  "lookup (issue c w) p = lookup w p"
  by (simp_all add: lookup_def)

lemma is_file_iff: "p \<in> set (map fst (files w)) \<longleftrightarrow> lookup w p \<noteq> None"
  by (simp add: lookup_def map_of_eq_None_iff)

subsection \<open>paths\<close>

lemma memoPath_inj [simp]: "memoPath F m = memoPath F m' \<longleftrightarrow> memo_id m = memo_id m'"
  by (simp add: memoPath_def)

lemma resourcePath_inj [simp]: "resourcePath F r = resourcePath F r' \<longleftrightarrow> filename r = filename r'"
  by (simp add: resourcePath_def)

lemma memoPath_neq_resourcePath [simp]:
  "memoPath F m \<noteq> resourcePath F r" "resourcePath F r \<noteq> memoPath F m"
  by (simp_all add: memoPath_def resourcePath_def)

lemma in_folder_split: "in_folder dir p \<Longrightarrow> \<exists>name. p = dir @ ''/'' @ name \<and> CHR ''/'' \<notin> set name"
proof -
  assume a: "in_folder dir p"
  have "p = take (length dir + 1) p @ drop (length dir + 1) p" by simp
  with a have "p = (dir @ ''/'') @ drop (length dir + 1) p" unfolding in_folder_def by metis
  with a show ?thesis unfolding in_folder_def by auto
qed

lemma memoPath_not_in_resources [simp]: "\<not> in_folder (F @ ''/resources'') (memoPath F m)"
  by (auto dest!: in_folder_split simp: memoPath_def)

lemma resourcePath_not_in_memos [simp]: "\<not> in_folder (F @ ''/memos'') (resourcePath F r)"
  by (auto dest!: in_folder_split simp: resourcePath_def)

lemma folders_disjoint: "in_folder (F @ ''/memos'') p \<Longrightarrow> \<not> in_folder (F @ ''/resources'') p"
  by (auto dest!: in_folder_split)

lemma folder_paths [simp]:
  "resourcePath F r \<noteq> F @ ''/memos''" "resourcePath F r \<noteq> F @ ''/resources''"
  "memoPath F m \<noteq> F @ ''/memos''" "memoPath F m \<noteq> F @ ''/resources''"
  "F @ ''/memos'' \<noteq> F @ ''/resources''"
  by (simp_all add: resourcePath_def memoPath_def)

lemma folder_not_in_folder [simp]:
  "\<not> in_folder (F @ ''/memos'') (F @ ''/memos'')"
  "\<not> in_folder (F @ ''/resources'') (F @ ''/memos'')"
  "\<not> in_folder (F @ ''/memos'') (F @ ''/resources'')"
  "\<not> in_folder (F @ ''/resources'') (F @ ''/resources'')"
  by (auto dest!: in_folder_split)

lemma no_faults_simp [simp]: "\<not> no_faults c"
  by (simp add: no_faults_def)

subsection \<open>the loop over the memos\<close>

lemma sync_memo_files:
  "files (sync_memo faulty F lst m w) =
     (if skip_memo lst m \<or> faulty (OpWrite (memoPath F m)) then files w
      else AList.update (memoPath F m) (Text (memo_content m)) (files w))"
  by (simp add: sync_memo_def adapter_write_def)

lemma sync_memo_calls:
  "calls (sync_memo faulty F lst m w) =
     calls w @ (if skip_memo lst m then [] else [OpWrite (memoPath F m)])"
  by (simp add: sync_memo_def adapter_write_def)

lemma sync_memo_frame [simp]:
  "folders (sync_memo faulty F lst m w) = folders w"
  "data (sync_memo faulty F lst m w) = data w"
  "settings (sync_memo faulty F lst m w) = settings w"
  "console (sync_memo faulty F lst m w) = console w"
  "fetched (sync_memo faulty F lst m w) = fetched w"
  by (simp_all add: sync_memo_def adapter_write_def)

lemma fold_sync_memo_frame [simp]:
  "folders (fold (sync_memo faulty F lst) ms w) = folders w"
  "data (fold (sync_memo faulty F lst) ms w) = data w"
  "settings (fold (sync_memo faulty F lst) ms w) = settings w"
  "console (fold (sync_memo faulty F lst) ms w) = console w"
  "fetched (fold (sync_memo faulty F lst) ms w) = fetched w"
  by (induction ms arbitrary: w; simp)+

lemma sync_memo_lookup_other:
  "skip_memo lst m \<or> memoPath F m \<noteq> p \<Longrightarrow> lookup (sync_memo faulty F lst m w) p = lookup w p"
  by (auto simp: lookup_def sync_memo_files update_conv')

lemma fold_sync_memo_lookup_other:
  "\<forall>m \<in> set ms. skip_memo lst m \<or> memoPath F m \<noteq> p \<Longrightarrow>
   lookup (fold (sync_memo faulty F lst) ms w) p = lookup w p"
  by (induction ms arbitrary: w) (simp_all add: sync_memo_lookup_other)

lemma sync_memo_lookup_mono:
  "lookup w p \<noteq> None \<Longrightarrow> lookup (sync_memo faulty F lst m w) p \<noteq> None"
  by (simp add: lookup_def sync_memo_files update_conv')

lemma fold_sync_memo_lookup_mono:
  "lookup w p \<noteq> None \<Longrightarrow> lookup (fold (sync_memo faulty F lst) ms w) p \<noteq> None"
proof (induction ms arbitrary: w)
  case Nil
  then show ?case by simp
next
  case (Cons a ms)
  have "lookup (sync_memo faulty F lst a w) p \<noteq> None"
    using Cons.prems by (rule sync_memo_lookup_mono)
  then have "lookup (fold (sync_memo faulty F lst) ms (sync_memo faulty F lst a w)) p \<noteq> None"
    by (rule Cons.IH)
  then show ?case by simp
qed

lemma fold_sync_memo_lookup_written:
  assumes "m \<in> set ms" "distinct (map memo_id ms)" "\<not> skip_memo lst m"
    "\<not> faulty (OpWrite (memoPath F m))"
  shows "lookup (fold (sync_memo faulty F lst) ms w) (memoPath F m) = Some (Text (memo_content m))"
  using assms
proof (induction ms arbitrary: w)
  case Nil
  then show ?case by simp
next
  case (Cons a ms)
  show ?case
  proof (cases "a = m")
    case True
    have "memo_id m \<notin> set (map memo_id ms)"
      using Cons.prems(2) True by simp
    then have "\<forall>m' \<in> set ms. memo_id m' \<noteq> memo_id m"
      by (metis image_eqI set_map)
    then have "\<forall>m' \<in> set ms. skip_memo lst m' \<or> memoPath F m' \<noteq> memoPath F m"
      by simp
    then have "lookup (fold (sync_memo faulty F lst) ms (sync_memo faulty F lst a w)) (memoPath F m) =
        lookup (sync_memo faulty F lst a w) (memoPath F m)"
      by (rule fold_sync_memo_lookup_other)
    also have "\<dots> = Some (Text (memo_content m))"
      using True Cons.prems(3,4) by (simp add: lookup_def sync_memo_files update_conv')
    finally show ?thesis by simp
  next
    case False
    then have "m \<in> set ms" using Cons.prems(1) by simp
    then show ?thesis using Cons.IH[of "sync_memo faulty F lst a w"] Cons.prems by simp
  qed
qed

lemma fold_sync_memo_noop:
  "\<forall>m \<in> set ms. skip_memo lst m \<or> lookup w (memoPath F m) = Some (Text (memo_content m)) \<Longrightarrow>
   files (fold (sync_memo faulty F lst) ms w) = files w"
proof (induction ms arbitrary: w)
  case Nil
  then show ?case by simp
next
  case (Cons a ms)
  have s: "files (sync_memo faulty F lst a w) = files w"
    using Cons.prems by (auto simp: sync_memo_files lookup_def update_triv)
  then have "\<forall>m \<in> set ms. skip_memo lst m
      \<or> lookup (sync_memo faulty F lst a w) (memoPath F m) = Some (Text (memo_content m))"
    using Cons.prems by (simp add: lookup_def)
  then show ?case using Cons.IH[of "sync_memo faulty F lst a w"] s by simp
qed

lemma fold_sync_memo_calls:
  "calls (fold (sync_memo faulty F lst) ms w) =
     calls w @ map (\<lambda>m. OpWrite (memoPath F m)) (filter (\<lambda>m. \<not> skip_memo lst m) ms)"
  by (induction ms arbitrary: w) (simp_all add: sync_memo_calls)

subsection \<open>ensure_folder\<close>

lemma ensure_folder_fst:
  "fst (ensure_folder faulty p msg w) = Inr () \<longleftrightarrow>
     \<not> faulty (OpExists p) \<and>
     (lookup w p \<noteq> None \<or> p \<in> set (folders w) \<or> \<not> faulty (OpCreateFolder p))"
  by (auto simp: ensure_folder_def adapter_exists_def vault_createFolder_def is_file_iff
           simp del: set_map)

lemma ensure_folder_frame [simp]:
  "files (snd (ensure_folder faulty p msg w)) = files w"
  "data (snd (ensure_folder faulty p msg w)) = data w"
  "settings (snd (ensure_folder faulty p msg w)) = settings w"
  "console (snd (ensure_folder faulty p msg w)) = console w"
  "fetched (snd (ensure_folder faulty p msg w)) = fetched w"
  by (simp_all add: ensure_folder_def adapter_exists_def vault_createFolder_def)

lemma ensure_folder_lookup [simp]: "lookup (snd (ensure_folder faulty p msg w)) q = lookup w q"
  by (simp add: lookup_def)

lemma ensure_folder_folders:
  "folders (snd (ensure_folder faulty p msg w)) =
     (if \<not> faulty (OpExists p) \<and> lookup w p = None \<and> p \<notin> set (folders w)
         \<and> \<not> faulty (OpCreateFolder p)
      then folders w @ [p] else folders w)"
  by (auto simp: ensure_folder_def adapter_exists_def vault_createFolder_def is_file_iff
           simp del: set_map)

lemma ensure_folder_calls:
  "calls (snd (ensure_folder faulty p msg w)) =
     calls w @ OpExists p #
       (if \<not> faulty (OpExists p) \<and> lookup w p = None \<and> p \<notin> set (folders w)
        then [OpCreateFolder p] else [])"
  by (auto simp: ensure_folder_def adapter_exists_def vault_createFolder_def is_file_iff
           simp del: set_map)

subsection \<open>auxiliary facts\<close>

lemma issuedI: "calls w' = calls w @ cs \<Longrightarrow> issued w w' = cs"
  by (simp add: issued_def)

lemma distinct_map_eq:
  "distinct (map f xs) \<Longrightarrow> x \<in> set xs \<Longrightarrow> y \<in> set xs \<Longrightarrow> f x = f y \<Longrightarrow> x = y"
  by (meson distinct_map inj_onD)

lemma same_files_lookup: "files u' = files u \<Longrightarrow> lookup u' p = lookup u p"
  by (simp add: lookup_def)

subsection \<open>the callbacks of the resources\<close>

lemma lookup_calls_update [simp]: "lookup (w\<lparr>calls := cs\<rparr>) p = lookup w p"
  by (simp add: lookup_def)

lemma adapter_exists_fst:
  "fst (adapter_exists faulty p w) =
     (if faulty (OpExists p) then Inl (IOError (OpExists p))
      else Inr (lookup w p \<noteq> None \<or> p \<in> set (folders w)))"
  by (simp add: adapter_exists_def is_file_iff del: set_map)

lemma adapter_exists_snd: "snd (adapter_exists faulty p w) = issue (OpExists p) w"
  by (simp add: adapter_exists_def)

lemma start_resources:
  "start_all (sync_resource_start faulty F) rs w =
     (map (\<lambda>r. (r, fst (adapter_exists faulty (resourcePath F r) w))) rs,
      w\<lparr>calls := calls w @ map (\<lambda>r. OpExists (resourcePath F r)) rs\<rparr>)"
proof (induction rs arbitrary: w)
  case Nil
  then show ?case by simp
next
  case (Cons a rs)
  have s: "sync_resource_start faulty F a w =
      (fst (adapter_exists faulty (resourcePath F a) w), issue (OpExists (resourcePath F a)) w)"
    by (simp add: sync_resource_start_def adapter_exists_def)
  have f: "fst (adapter_exists faulty p (w\<lparr>calls := cs\<rparr>)) = fst (adapter_exists faulty p w)" for p cs
    by (simp add: adapter_exists_fst)
  show ?case
    by (simp add: s Cons.IH f issue_def)
qed

lemma sync_resource_resume_files:
  "files (sync_resource_resume faulty F r x w) =
     (if x = Inr False \<and> \<not> faulty (OpWriteBinary (resourcePath F r))
      then AList.update (resourcePath F r) (Binary (resource_content r)) (files w)
      else files w)"
  by (auto simp: sync_resource_resume_def adapter_writeBinary_def split: sum.splits bool.splits)

lemma sync_resource_resume_calls:
  "calls (sync_resource_resume faulty F r x w) =
     calls w @ (if x = Inr False then [OpWriteBinary (resourcePath F r)] else [])"
  by (auto simp: sync_resource_resume_def adapter_writeBinary_def split: sum.splits bool.splits)

lemma sync_resource_resume_frame [simp]:
  "folders (sync_resource_resume faulty F r x w) = folders w"
  "data (sync_resource_resume faulty F r x w) = data w"
  "settings (sync_resource_resume faulty F r x w) = settings w"
  "console (sync_resource_resume faulty F r x w) = console w"
  "fetched (sync_resource_resume faulty F r x w) = fetched w"
  by (auto simp: sync_resource_resume_def adapter_writeBinary_def split: sum.splits bool.splits)

lemma resume_resources_frame [simp]:
  "folders (resume_all (sync_resource_resume faulty F) pend w) = folders w"
  "data (resume_all (sync_resource_resume faulty F) pend w) = data w"
  "settings (resume_all (sync_resource_resume faulty F) pend w) = settings w"
  "console (resume_all (sync_resource_resume faulty F) pend w) = console w"
  "fetched (resume_all (sync_resource_resume faulty F) pend w) = fetched w"
  unfolding resume_all_def by (induction pend arbitrary: w; simp add: split_beta)+

lemma resume_all_Cons [simp]: "resume_all g ((x, r) # pend) w = resume_all g pend (g x r w)"
  by (simp add: resume_all_def)

lemma resume_all_Nil [simp]: "resume_all g [] w = w"
  by (simp add: resume_all_def)

lemma resume_resources_calls:
  "calls (resume_all (sync_resource_resume faulty F) pend w) =
     calls w @ map (\<lambda>(r, x). OpWriteBinary (resourcePath F r)) (filter (\<lambda>(r, x). x = Inr False) pend)"
  by (induction pend arbitrary: w) (auto simp: sync_resource_resume_calls)

lemma sync_resource_resume_lookup_other:
  "resourcePath F r \<noteq> p \<or> x \<noteq> Inr False \<Longrightarrow>
   lookup (sync_resource_resume faulty F r x w) p = lookup w p"
  by (auto simp: lookup_def sync_resource_resume_files update_conv')

lemma resume_resources_lookup_other:
  "\<forall>(r, x) \<in> set pend. resourcePath F r \<noteq> p \<or> x \<noteq> Inr False \<Longrightarrow>
   lookup (resume_all (sync_resource_resume faulty F) pend w) p = lookup w p"
  by (induction pend arbitrary: w) (auto simp: sync_resource_resume_lookup_other)

lemma sync_resource_resume_lookup_mono:
  "lookup w p \<noteq> None \<Longrightarrow> lookup (sync_resource_resume faulty F r x w) p \<noteq> None"
  by (simp add: lookup_def sync_resource_resume_files update_conv')

lemma resume_resources_lookup_mono:
  "lookup w p \<noteq> None \<Longrightarrow> lookup (resume_all (sync_resource_resume faulty F) pend w) p \<noteq> None"
proof (induction pend arbitrary: w)
  case Nil
  then show ?case by simp
next
  case (Cons a pend)
  obtain r x where a: "a = (r, x)" by (cases a)
  have "lookup (sync_resource_resume faulty F r x w) p \<noteq> None"
    using Cons.prems by (rule sync_resource_resume_lookup_mono)
  then show ?case unfolding a resume_all_Cons by (rule Cons.IH)
qed

lemma resume_resources_lookup_present:
  assumes "(r, Inr False) \<in> set pend" "\<not> faulty (OpWriteBinary (resourcePath F r))"
  shows "lookup (resume_all (sync_resource_resume faulty F) pend w) (resourcePath F r) \<noteq> None"
  using assms
proof (induction pend arbitrary: w)
  case Nil
  then show ?case by simp
next
  case (Cons a pend)
  obtain r' x where a: "a = (r', x)" by (cases a)
  show ?case
  proof (cases "a = (r, Inr False)")
    case True
    have "lookup (sync_resource_resume faulty F r (Inr False) w) (resourcePath F r) \<noteq> None"
      using Cons.prems(2) by (simp add: lookup_def sync_resource_resume_files update_conv')
    then show ?thesis
      unfolding True resume_all_Cons by (rule resume_resources_lookup_mono)
  next
    case False
    then have "(r, Inr False) \<in> set pend" using Cons.prems(1) by simp
    then show ?thesis unfolding a resume_all_Cons using Cons.prems(2) by (rule Cons.IH)
  qed
qed

lemma resume_resources_lookup_written:
  assumes "(r, Inr False) \<in> set pend" "distinct (map (\<lambda>(r, x). filename r) pend)"
    "\<not> faulty (OpWriteBinary (resourcePath F r))"
  shows "lookup (resume_all (sync_resource_resume faulty F) pend w) (resourcePath F r) =
     Some (Binary (resource_content r))"
  using assms
proof (induction pend arbitrary: w)
  case Nil
  then show ?case by simp
next
  case (Cons a pend)
  obtain r' x where a: "a = (r', x)" by (cases a)
  show ?case
  proof (cases "a = (r, Inr False)")
    case True
    have "filename r \<notin> set (map (\<lambda>(r, x). filename r) pend)"
      using Cons.prems(2) True by simp
    then have "\<forall>(r', x) \<in> set pend. resourcePath F r' \<noteq> resourcePath F r \<or> x \<noteq> Inr False"
      by (auto simp: image_iff) 
    then have "lookup (resume_all (sync_resource_resume faulty F) pend
                 (sync_resource_resume faulty F r (Inr False) w)) (resourcePath F r) =
        lookup (sync_resource_resume faulty F r (Inr False) w) (resourcePath F r)"
      by (rule resume_resources_lookup_other)
    also have "\<dots> = Some (Binary (resource_content r))"
      using Cons.prems(3) by (simp add: lookup_def sync_resource_resume_files update_conv')
    finally show ?thesis unfolding True resume_all_Cons .
  next
    case False
    then have in_rest: "(r, Inr False) \<in> set pend" using Cons.prems(1) by simp
    then have "filename r \<in> set (map (\<lambda>(r, x). filename r) pend)" by force
    then have "filename r' \<noteq> filename r" using Cons.prems(2) a by auto
    then have "lookup (sync_resource_resume faulty F r' x w) (resourcePath F r) = lookup w (resourcePath F r)"
      by (intro sync_resource_resume_lookup_other) simp
    have d: "distinct (map (\<lambda>(r, x). filename r) pend)" using Cons.prems(2) by simp
    show ?thesis
      unfolding a resume_all_Cons using in_rest d Cons.prems(3) by (rule Cons.IH)
  qed
qed

lemma resume_resources_noop:
  "\<forall>(r, x) \<in> set pend. x \<noteq> Inr False \<Longrightarrow>
   files (resume_all (sync_resource_resume faulty F) pend w) = files w"
  by (induction pend arbitrary: w) (auto simp: sync_resource_resume_files)

subsection \<open>the callbacks of the removals\<close>

lemma delete_orphan_start_lookup:
  "lookup (snd (delete_orphan_start faulty inAPI q w)) p =
     (if q = p \<and> p \<notin> set inAPI \<and> \<not> faulty (OpRemove p) then None else lookup w p)"
  by (auto simp: lookup_def delete_orphan_start_def adapter_remove_def delete_conv')

lemma delete_orphan_start_files:
  "files (snd (delete_orphan_start faulty inAPI q w)) =
     (if q \<notin> set inAPI \<and> \<not> faulty (OpRemove q) then AList.delete q (files w) else files w)"
  by (simp add: delete_orphan_start_def adapter_remove_def)

lemma delete_orphan_start_calls:
  "calls (snd (delete_orphan_start faulty inAPI q w)) =
     calls w @ (if q \<notin> set inAPI then [OpRemove q] else [])"
  by (simp add: delete_orphan_start_def adapter_remove_def)

lemma delete_orphan_start_frame [simp]:
  "folders (snd (delete_orphan_start faulty inAPI q w)) = folders w"
  "data (snd (delete_orphan_start faulty inAPI q w)) = data w"
  "settings (snd (delete_orphan_start faulty inAPI q w)) = settings w"
  "console (snd (delete_orphan_start faulty inAPI q w)) = console w"
  "fetched (snd (delete_orphan_start faulty inAPI q w)) = fetched w"
  "notices (snd (delete_orphan_start faulty inAPI q w)) = notices w"
  by (simp_all add: delete_orphan_start_def adapter_remove_def)

lemma start_all_snd_Cons:
  "snd (start_all f (x # xs) w) = snd (start_all f xs (snd (f x w)))"
  by (simp add: split_beta)

lemma start_deletes_frame [simp]:
  "folders (snd (start_all (delete_orphan_start faulty inAPI) ps w)) = folders w"
  "data (snd (start_all (delete_orphan_start faulty inAPI) ps w)) = data w"
  "settings (snd (start_all (delete_orphan_start faulty inAPI) ps w)) = settings w"
  "console (snd (start_all (delete_orphan_start faulty inAPI) ps w)) = console w"
  "fetched (snd (start_all (delete_orphan_start faulty inAPI) ps w)) = fetched w"
  "notices (snd (start_all (delete_orphan_start faulty inAPI) ps w)) = notices w"
  by (induction ps arbitrary: w; simp add: start_all_snd_Cons del: start_all.simps(2))+

lemma start_deletes_lookup:
  "lookup (snd (start_all (delete_orphan_start faulty inAPI) ps w)) p =
     (if p \<in> set ps \<and> p \<notin> set inAPI \<and> \<not> faulty (OpRemove p) then None else lookup w p)"
  by (induction ps arbitrary: w)
     (auto simp: start_all_snd_Cons delete_orphan_start_lookup simp del: start_all.simps(2))

lemma start_deletes_calls:
  "calls (snd (start_all (delete_orphan_start faulty inAPI) ps w)) =
     calls w @ map OpRemove (filter (\<lambda>p. p \<notin> set inAPI) ps)"
  by (induction ps arbitrary: w)
     (simp_all add: start_all_snd_Cons delete_orphan_start_calls del: start_all.simps(2))

lemma start_deletes_noop:
  "\<forall>p \<in> set ps. p \<in> set inAPI \<Longrightarrow>
   files (snd (start_all (delete_orphan_start faulty inAPI) ps w)) = files w"
  by (induction ps arbitrary: w)
     (simp_all add: start_all_snd_Cons delete_orphan_start_files del: start_all.simps(2))

lemma delete_orphan_resume_frame [simp]:
  "files (delete_orphan_resume kind p x w) = files w"
  "folders (delete_orphan_resume kind p x w) = folders w"
  "data (delete_orphan_resume kind p x w) = data w"
  "settings (delete_orphan_resume kind p x w) = settings w"
  "console (delete_orphan_resume kind p x w) = console w"
  "calls (delete_orphan_resume kind p x w) = calls w"
  "fetched (delete_orphan_resume kind p x w) = fetched w"
  by (auto simp: delete_orphan_resume_def split: option.splits sum.splits)

lemma resume_deletes_frame [simp]:
  "files (resume_all (delete_orphan_resume kind) pend w) = files w"
  "folders (resume_all (delete_orphan_resume kind) pend w) = folders w"
  "data (resume_all (delete_orphan_resume kind) pend w) = data w"
  "settings (resume_all (delete_orphan_resume kind) pend w) = settings w"
  "console (resume_all (delete_orphan_resume kind) pend w) = console w"
  "calls (resume_all (delete_orphan_resume kind) pend w) = calls w"
  "fetched (resume_all (delete_orphan_resume kind) pend w) = fetched w"
  by (induction pend arbitrary: w; auto)+

lemma resume_deletes_lookup [simp]:
  "lookup (resume_all (delete_orphan_resume kind) pend w) p = lookup w p"
  by (simp add: lookup_def)

subsection \<open>sync_items\<close>

lemma adapter_list_eq:
  "adapter_list faulty dir w =
     (if faulty (OpList dir) then Inl (IOError (OpList dir))
      else Inr (filter (in_folder dir) (map fst (files w))), issue (OpList dir) w)"
  by (simp add: adapter_list_def)

lemma sync_items_eq:
  "sync_items faulty F lst res w =
     (if faulty (OpList (F @ ''/memos'')) then Inl (IOError (OpList (F @ ''/memos'')))
      else Inr (filter (in_folder (F @ ''/memos''))
                  (map fst (files (fold (sync_memo faulty F lst) (memos res) w)))),
      resume_all (sync_resource_resume faulty F)
        (map (\<lambda>r. (r, fst (adapter_exists faulty (resourcePath F r)
                              (fold (sync_memo faulty F lst) (memos res) w)))) (resources res))
        (issue (OpList (F @ ''/memos''))
           ((fold (sync_memo faulty F lst) (memos res) w)
              \<lparr>calls := calls (fold (sync_memo faulty F lst) (memos res) w)
                         @ map (\<lambda>r. OpExists (resourcePath F r)) (resources res)\<rparr>)))"
  by (simp add: sync_items_def start_resources adapter_list_eq)

lemma sync_items_fst:
  "fst (sync_items faulty F lst res w) =
     (if faulty (OpList (F @ ''/memos'')) then Inl (IOError (OpList (F @ ''/memos'')))
      else Inr (filter (in_folder (F @ ''/memos''))
                  (map fst (files (fold (sync_memo faulty F lst) (memos res) w)))))"
  by (simp add: sync_items_eq)

lemma sync_items_frame [simp]:
  "folders (snd (sync_items faulty F lst res w)) = folders w"
  "data (snd (sync_items faulty F lst res w)) = data w"
  "settings (snd (sync_items faulty F lst res w)) = settings w"
  "console (snd (sync_items faulty F lst res w)) = console w"
  "fetched (snd (sync_items faulty F lst res w)) = fetched w"
  by (simp_all add: sync_items_eq)

lemma sync_items_lookup:
  "lookup (snd (sync_items faulty F lst res w)) p =
   lookup (resume_all (sync_resource_resume faulty F)
        (map (\<lambda>r. (r, fst (adapter_exists faulty (resourcePath F r)
                              (fold (sync_memo faulty F lst) (memos res) w)))) (resources res))
        (fold (sync_memo faulty F lst) (memos res) w)) p"
proof -
  have g: "files (resume_all (sync_resource_resume faulty F) pend u) =
           files (resume_all (sync_resource_resume faulty F) pend u')" if "files u = files u'"
    for pend u u'
    using that
    by (induction pend arbitrary: u u') (auto simp: sync_resource_resume_files)
  show ?thesis
    unfolding lookup_def sync_items_eq snd_conv
    by (rule arg_cong[where f = "\<lambda>fs. map_of fs p"], rule g) simp
qed

lemma sync_items_lookup_other:
  assumes "\<forall>m \<in> set (memos res). skip_memo lst m \<or> memoPath F m \<noteq> p"
    and "(\<forall>r \<in> set (resources res). resourcePath F r \<noteq> p) \<or> lookup w p \<noteq> None"
  shows "lookup (snd (sync_items faulty F lst res w)) p = lookup w p"
proof -
  define wm where "wm = fold (sync_memo faulty F lst) (memos res) w"
  have m: "lookup wm p = lookup w p"
    unfolding wm_def using assms(1) by (rule fold_sync_memo_lookup_other)
  have "\<forall>(r, x) \<in> set (map (\<lambda>r. (r, fst (adapter_exists faulty (resourcePath F r) wm))) (resources res)).
          resourcePath F r \<noteq> p \<or> x \<noteq> Inr False"
    using assms(2) m by (auto simp: adapter_exists_fst)
  then have "lookup (resume_all (sync_resource_resume faulty F)
        (map (\<lambda>r. (r, fst (adapter_exists faulty (resourcePath F r) wm))) (resources res)) wm) p =
      lookup wm p"
    by (rule resume_resources_lookup_other)
  then show ?thesis using m by (simp add: sync_items_lookup wm_def)
qed

lemma sync_items_lookup_mono:
  assumes "lookup w p \<noteq> None"
  shows "lookup (snd (sync_items faulty F lst res w)) p \<noteq> None"
  unfolding sync_items_lookup using assms
  by (intro resume_resources_lookup_mono fold_sync_memo_lookup_mono)

lemma sync_items_lookup_memo_orphan:
  assumes "in_folder (F @ ''/memos'') p" "p \<notin> set (map (memoPath F) (memos res))"
  shows "lookup (snd (sync_items faulty F lst res w)) p = lookup w p"
  using assms by (intro sync_items_lookup_other) auto

lemma sync_items_lookup_resource_orphan:
  assumes "in_folder (F @ ''/resources'') p" "p \<notin> set (map (resourcePath F) (resources res))"
  shows "lookup (snd (sync_items faulty F lst res w)) p = lookup w p"
  using assms by (intro sync_items_lookup_other) auto

lemma sync_items_listing:
  assumes "in_folder (F @ ''/memos'') p"
  shows "p \<in> set (map fst (files (fold (sync_memo faulty F lst) (memos res) w))) \<longleftrightarrow>
         lookup (snd (sync_items faulty F lst res w)) p \<noteq> None"
proof -
  define wm where "wm = fold (sync_memo faulty F lst) (memos res) w"
  have "\<forall>(r, x) \<in> set (map (\<lambda>r. (r, fst (adapter_exists faulty (resourcePath F r) wm))) (resources res)).
          resourcePath F r \<noteq> p \<or> x \<noteq> Inr False"
    using assms by auto
  then have "lookup (resume_all (sync_resource_resume faulty F)
        (map (\<lambda>r. (r, fst (adapter_exists faulty (resourcePath F r) wm))) (resources res)) wm) p =
      lookup wm p"
    by (rule resume_resources_lookup_other)
  then show ?thesis
    unfolding sync_items_lookup wm_def[symmetric] is_file_iff by simp
qed

lemma sync_items_memo_written:
  assumes "m \<in> set (memos res)" "distinct (map memo_id (memos res))" "\<not> skip_memo lst m"
    "\<not> faulty (OpWrite (memoPath F m))"
  shows "lookup (snd (sync_items faulty F lst res w)) (memoPath F m) = Some (Text (memo_content m))"
proof -
  define wm where "wm = fold (sync_memo faulty F lst) (memos res) w"
  have "lookup wm (memoPath F m) = Some (Text (memo_content m))"
    unfolding wm_def using assms by (rule fold_sync_memo_lookup_written)
  moreover have "lookup (resume_all (sync_resource_resume faulty F)
        (map (\<lambda>r. (r, fst (adapter_exists faulty (resourcePath F r) wm))) (resources res)) wm) (memoPath F m) =
      lookup wm (memoPath F m)"
    by (rule resume_resources_lookup_other) auto
  ultimately show ?thesis by (simp add: sync_items_lookup wm_def)
qed

lemma sync_items_resource_present:
  assumes "r \<in> set (resources res)"
    "\<not> faulty (OpExists (resourcePath F r))" "\<not> faulty (OpWriteBinary (resourcePath F r))"
  shows "lookup (snd (sync_items faulty F lst res w)) (resourcePath F r) \<noteq> None
       \<or> resourcePath F r \<in> set (folders w)"
proof -
  define wm where "wm = fold (sync_memo faulty F lst) (memos res) w"
  define pend where "pend = map (\<lambda>r. (r, fst (adapter_exists faulty (resourcePath F r) wm))) (resources res)"
  have fo: "folders wm = folders w" by (simp add: wm_def)
  show ?thesis
  proof (cases "lookup wm (resourcePath F r) \<noteq> None \<or> resourcePath F r \<in> set (folders w)")
    case True
    then show ?thesis
      using resume_resources_lookup_mono[of wm "resourcePath F r" faulty F pend]
      by (auto simp: sync_items_lookup wm_def pend_def)
  next
    case False
    then have "(r, Inr False) \<in> set pend"
      using assms(1,2) fo by (force simp: pend_def adapter_exists_fst)
    then have "lookup (resume_all (sync_resource_resume faulty F) pend wm) (resourcePath F r) \<noteq> None"
      using assms(3) by (rule resume_resources_lookup_present)
    then show ?thesis by (simp add: sync_items_lookup wm_def pend_def)
  qed
qed

lemma sync_items_resource_created:
  assumes "r \<in> set (resources res)" "distinct (map filename (resources res))"
    "\<not> faulty (OpExists (resourcePath F r))" "\<not> faulty (OpWriteBinary (resourcePath F r))"
    "resourcePath F r \<notin> set (folders w)"
  shows "lookup (snd (sync_items faulty F lst res w)) (resourcePath F r) =
     (case lookup w (resourcePath F r) of Some c \<Rightarrow> Some c
      | None \<Rightarrow> Some (Binary (resource_content r)))"
proof -
  define wm where "wm = fold (sync_memo faulty F lst) (memos res) w"
  define pend where "pend = map (\<lambda>r. (r, fst (adapter_exists faulty (resourcePath F r) wm))) (resources res)"
  have fo: "folders wm = folders w" by (simp add: wm_def)
  have lm: "lookup wm (resourcePath F r) = lookup w (resourcePath F r)"
    unfolding wm_def by (rule fold_sync_memo_lookup_other) simp
  have fin: "lookup (snd (sync_items faulty F lst res w)) (resourcePath F r) =
      lookup (resume_all (sync_resource_resume faulty F) pend wm) (resourcePath F r)"
    by (simp add: sync_items_lookup wm_def pend_def)
  show ?thesis
  proof (cases "lookup w (resourcePath F r)")
    case None
    then have "(r, Inr False) \<in> set pend"
      using assms(1,3,5) fo lm by (force simp: pend_def adapter_exists_fst)
    moreover have "distinct (map (\<lambda>(r, x). filename r) pend)"
      using assms(2) by (simp add: pend_def comp_def)
    ultimately have "lookup (resume_all (sync_resource_resume faulty F) pend wm) (resourcePath F r) =
        Some (Binary (resource_content r))"
      using assms(4) by (rule resume_resources_lookup_written)
    then show ?thesis using None fin by simp
  next
    case (Some c)
    have "x \<noteq> Inr False" if "(r', x) \<in> set pend" "resourcePath F r' = resourcePath F r" for r' x
    proof -
      have "x = fst (adapter_exists faulty (resourcePath F r) wm)"
        using that by (auto simp: pend_def simp del: resourcePath_inj)
      then show ?thesis using Some lm by (simp add: adapter_exists_fst)
    qed
    then have "\<forall>(r', x) \<in> set pend. resourcePath F r' \<noteq> resourcePath F r \<or> x \<noteq> Inr False"
      by blast
    then have "lookup (resume_all (sync_resource_resume faulty F) pend wm) (resourcePath F r) =
        lookup wm (resourcePath F r)"
      by (rule resume_resources_lookup_other)
    then show ?thesis using Some fin lm by simp
  qed
qed

lemma sync_items_noop:
  assumes "\<forall>m \<in> set (memos res). skip_memo lst m
                 \<or> lookup w (memoPath F m) = Some (Text (memo_content m))"
    and "\<forall>r \<in> set (resources res). lookup w (resourcePath F r) \<noteq> None
                 \<or> resourcePath F r \<in> set (folders w)"
  shows "files (snd (sync_items faulty F lst res w)) = files w"
proof -
  define wm where "wm = fold (sync_memo faulty F lst) (memos res) w"
  define pend where "pend = map (\<lambda>r. (r, fst (adapter_exists faulty (resourcePath F r) wm))) (resources res)"
  have fm: "files wm = files w"
    unfolding wm_def using assms(1) by (rule fold_sync_memo_noop)
  have fo: "folders wm = folders w" by (simp add: wm_def)
  have "\<forall>(r, x) \<in> set pend. x \<noteq> Inr False"
    using assms(2) fo same_files_lookup[OF fm] by (auto simp: pend_def adapter_exists_fst)
  then have "files (resume_all (sync_resource_resume faulty F) pend
      (issue (OpList (F @ ''/memos''))
           (wm\<lparr>calls := calls wm @ map (\<lambda>r. OpExists (resourcePath F r)) (resources res)\<rparr>))) =
     files (issue (OpList (F @ ''/memos''))
           (wm\<lparr>calls := calls wm @ map (\<lambda>r. OpExists (resourcePath F r)) (resources res)\<rparr>))"
    by (rule resume_resources_noop)
  then show ?thesis using fm by (simp add: sync_items_eq wm_def pend_def)
qed

lemma sync_items_calls:
  "\<exists>B. calls (snd (sync_items faulty F lst res w)) =
      calls w @ map (\<lambda>m. OpWrite (memoPath F m)) (filter (\<lambda>m. \<not> skip_memo lst m) (memos res))
        @ map (\<lambda>r. OpExists (resourcePath F r)) (resources res) @ OpList (F @ ''/memos'') # B
    \<and> (\<forall>c \<in> set B. \<exists>r \<in> set (resources res).
           c = OpWriteBinary (resourcePath F r) \<and> lookup w (resourcePath F r) = None)"
proof -
  define wm where "wm = fold (sync_memo faulty F lst) (memos res) w"
  define pend where "pend = map (\<lambda>r. (r, fst (adapter_exists faulty (resourcePath F r) wm))) (resources res)"
  define B where "B = map (\<lambda>(r, x). OpWriteBinary (resourcePath F r)) (filter (\<lambda>(r, x). x = Inr False) pend)"
  have bk: "lookup wm p = None \<Longrightarrow> lookup w p = None" for p
    unfolding wm_def using fold_sync_memo_lookup_mono[of w p faulty F lst "memos res"] by blast
  have "calls (snd (sync_items faulty F lst res w)) =
      calls w @ map (\<lambda>m. OpWrite (memoPath F m)) (filter (\<lambda>m. \<not> skip_memo lst m) (memos res))
        @ map (\<lambda>r. OpExists (resourcePath F r)) (resources res) @ OpList (F @ ''/memos'') # B"
    by (simp add: sync_items_eq resume_resources_calls fold_sync_memo_calls B_def pend_def wm_def)
  moreover have "\<forall>c \<in> set B. \<exists>r \<in> set (resources res).
           c = OpWriteBinary (resourcePath F r) \<and> lookup w (resourcePath F r) = None"
    unfolding B_def pend_def using bk
    by (auto simp: adapter_exists_fst split: if_splits)
  ultimately show ?thesis by blast
qed

subsection \<open>delete_memos and delete_resources\<close>

lemma delete_memos_fst:
  "fst (delete_memos faulty F res ps w) =
     (if faulty (OpList (F @ ''/resources'')) then Inl (IOError (OpList (F @ ''/resources'')))
      else Inr (filter (in_folder (F @ ''/resources''))
                  (map fst (files (snd (delete_memos faulty F res ps w))))))"
  by (simp add: delete_memos_def adapter_list_eq split_beta)

lemma delete_memos_frame [simp]:
  "folders (snd (delete_memos faulty F res ps w)) = folders w"
  "data (snd (delete_memos faulty F res ps w)) = data w"
  "settings (snd (delete_memos faulty F res ps w)) = settings w"
  "console (snd (delete_memos faulty F res ps w)) = console w"
  "fetched (snd (delete_memos faulty F res ps w)) = fetched w"
  by (simp_all add: delete_memos_def adapter_list_eq split_beta)

lemma delete_memos_lookup:
  "lookup (snd (delete_memos faulty F res ps w)) p =
     (if p \<in> set ps \<and> p \<notin> set (map (memoPath F) (memos res)) \<and> \<not> faulty (OpRemove p)
      then None else lookup w p)"
  by (simp add: delete_memos_def adapter_list_eq split_beta start_deletes_lookup del: set_map)

lemma delete_memos_calls:
  "calls (snd (delete_memos faulty F res ps w)) =
     calls w @ map OpRemove (filter (\<lambda>p. p \<notin> set (map (memoPath F) (memos res))) ps)
       @ [OpList (F @ ''/resources'')]"
  by (simp add: delete_memos_def adapter_list_eq split_beta start_deletes_calls del: set_map)

lemma delete_memos_noop:
  "\<forall>p \<in> set ps. p \<in> set (map (memoPath F) (memos res)) \<Longrightarrow>
   files (snd (delete_memos faulty F res ps w)) = files w"
  by (simp add: delete_memos_def adapter_list_eq split_beta start_deletes_noop del: set_map)

lemma delete_resources_frame [simp]:
  "folders (delete_resources faulty now F res qs w) = folders w"
  "settings (delete_resources faulty now F res qs w) = settings w"
  "console (delete_resources faulty now F res qs w) = console w"
  "fetched (delete_resources faulty now F res qs w) = fetched w"
  "data (delete_resources faulty now F res qs w) = checkpoint (settings w) now"
  by (simp_all add: delete_resources_def split_beta saveData_def)

lemma delete_resources_lookup:
  "lookup (delete_resources faulty now F res qs w) p =
     (if p \<in> set qs \<and> p \<notin> set (map (resourcePath F) (resources res)) \<and> \<not> faulty (OpRemove p)
      then None else lookup w p)"
  using start_deletes_lookup[of faulty "map (resourcePath F) (resources res)" qs w p]
  by (simp add: delete_resources_def split_beta saveData_def lookup_def del: set_map)

lemma delete_resources_calls:
  "calls (delete_resources faulty now F res qs w) =
     calls w @ map OpRemove (filter (\<lambda>p. p \<notin> set (map (resourcePath F) (resources res))) qs)"
  by (simp add: delete_resources_def split_beta saveData_def start_deletes_calls del: set_map)

lemma delete_resources_noop:
  "\<forall>p \<in> set qs. p \<in> set (map (resourcePath F) (resources res)) \<Longrightarrow>
   files (delete_resources faulty now F res qs w) = files w"
  by (simp add: delete_resources_def split_beta saveData_def start_deletes_noop del: set_map)

subsection \<open>apply_snapshot\<close>

lemma apply_snapshot_cases:
  fixes faulty now F lst res w
  defines "w1 \<equiv> snd (ensure_folder faulty (F @ ''/memos'') ''Created memos folder.'' w)"
  defines "w2 \<equiv> snd (ensure_folder faulty (F @ ''/resources'') ''Created resources folder.'' w1)"
  defines "w3 \<equiv> snd (sync_items faulty F lst res w2)"
  defines "ps \<equiv> filter (in_folder (F @ ''/memos''))
                  (map fst (files (fold (sync_memo faulty F lst) (memos res) w2)))"
  defines "w4 \<equiv> snd (delete_memos faulty F res ps w3)"
  defines "qs \<equiv> filter (in_folder (F @ ''/resources'')) (map fst (files w4))"
  defines "w5 \<equiv> delete_resources faulty now F res qs w4"
  shows "snd (apply_snapshot faulty now F lst res w) =
     (if fst (ensure_folder faulty (F @ ''/memos'') ''Created memos folder.'' w) \<noteq> Inr () then w1
      else if fst (ensure_folder faulty (F @ ''/resources'') ''Created resources folder.'' w1) \<noteq> Inr () then w2
      else if faulty (OpList (F @ ''/memos'')) then w3
      else if faulty (OpList (F @ ''/resources'')) then w4
      else w5)"
   and "fst (apply_snapshot faulty now F lst res w) = Inr () \<longleftrightarrow>
      fst (ensure_folder faulty (F @ ''/memos'') ''Created memos folder.'' w) = Inr () \<and>
      fst (ensure_folder faulty (F @ ''/resources'') ''Created resources folder.'' w1) = Inr () \<and>
      \<not> faulty (OpList (F @ ''/memos'')) \<and> \<not> faulty (OpList (F @ ''/resources''))"
proof -
  obtain r1 v1 where e1: "ensure_folder faulty (F @ ''/memos'') ''Created memos folder.'' w = (r1, v1)"
    by fastforce
  then have v1: "v1 = w1" by (simp add: w1_def)
  obtain r2 v2 where e2: "ensure_folder faulty (F @ ''/resources'') ''Created resources folder.'' w1 = (r2, v2)"
    by fastforce
  then have v2: "v2 = w2" by (simp add: w2_def)
  obtain r3 v3 where e3: "sync_items faulty F lst res w2 = (r3, v3)"
    by fastforce
  then have v3: "v3 = w3" by (simp add: w3_def)
  have f3: "r3 = (if faulty (OpList (F @ ''/memos'')) then Inl (IOError (OpList (F @ ''/memos'')))
                  else Inr ps)"
    using sync_items_fst[of faulty F lst res w2] e3 by (simp add: ps_def)
  obtain r4 v4 where e4: "delete_memos faulty F res ps w3 = (r4, v4)"
    by fastforce
  then have v4: "v4 = w4" by (simp add: w4_def)
  have f4: "r4 = (if faulty (OpList (F @ ''/resources'')) then Inl (IOError (OpList (F @ ''/resources'')))
                  else Inr qs)"
    using delete_memos_fst[of faulty F res ps w3] e4 by (simp add: qs_def w4_def)
  show "snd (apply_snapshot faulty now F lst res w) =
     (if fst (ensure_folder faulty (F @ ''/memos'') ''Created memos folder.'' w) \<noteq> Inr () then w1
      else if fst (ensure_folder faulty (F @ ''/resources'') ''Created resources folder.'' w1) \<noteq> Inr () then w2
      else if faulty (OpList (F @ ''/memos'')) then w3
      else if faulty (OpList (F @ ''/resources'')) then w4
      else w5)"
    unfolding apply_snapshot_def
    using e1 e2 e3 e4 f3 f4 v1 v2 v3 v4 w5_def
    by (auto split: sum.splits)
  show "fst (apply_snapshot faulty now F lst res w) = Inr () \<longleftrightarrow>
      fst (ensure_folder faulty (F @ ''/memos'') ''Created memos folder.'' w) = Inr () \<and>
      fst (ensure_folder faulty (F @ ''/resources'') ''Created resources folder.'' w1) = Inr () \<and>
      \<not> faulty (OpList (F @ ''/memos'')) \<and> \<not> faulty (OpList (F @ ''/resources''))"
    unfolding apply_snapshot_def
    using e1 e2 e3 e4 f3 f4 v1 v2 v3 v4 w5_def
    by (auto split: sum.splits)
qed

text \<open>Orphans are determined by the vault as it was before the snapshot was applied.\<close>

lemma listed_memos:
  "p \<in> set (filter (in_folder (F @ ''/memos''))
              (map fst (files (fold (sync_memo faulty F lst) (memos res) w)))) \<longleftrightarrow>
   in_folder (F @ ''/memos'') p \<and> lookup (snd (sync_items faulty F lst res w)) p \<noteq> None"
  using sync_items_listing[of F p faulty lst res w] by (auto simp del: set_map)

lemma apply_snapshot_lookup_reached:
  assumes "fst (ensure_folder faulty (F @ ''/memos'') ''Created memos folder.'' w) = Inr ()"
    and "fst (ensure_folder faulty (F @ ''/resources'') ''Created resources folder.''
            (snd (ensure_folder faulty (F @ ''/memos'') ''Created memos folder.'' w))) = Inr ()"
  shows "lookup (snd (apply_snapshot faulty now F lst res w)) p =
     (if (\<not> faulty (OpList (F @ ''/memos'')) \<and> in_folder (F @ ''/memos'') p
            \<and> p \<notin> set (map (memoPath F) (memos res))
          \<or> \<not> faulty (OpList (F @ ''/memos'')) \<and> \<not> faulty (OpList (F @ ''/resources''))
            \<and> in_folder (F @ ''/resources'') p \<and> p \<notin> set (map (resourcePath F) (resources res)))
         \<and> \<not> faulty (OpRemove p)
      then None
      else lookup (snd (sync_items faulty F lst res
             (snd (ensure_folder faulty (F @ ''/resources'') ''Created resources folder.''
                (snd (ensure_folder faulty (F @ ''/memos'') ''Created memos folder.'' w)))))) p)"
proof -
  define w2 where "w2 = snd (ensure_folder faulty (F @ ''/resources'') ''Created resources folder.''
                (snd (ensure_folder faulty (F @ ''/memos'') ''Created memos folder.'' w)))"
  define w3 where "w3 = snd (sync_items faulty F lst res w2)"
  define ps where "ps = filter (in_folder (F @ ''/memos''))
                  (map fst (files (fold (sync_memo faulty F lst) (memos res) w2)))"
  define w4 where "w4 = snd (delete_memos faulty F res ps w3)"
  define qs where "qs = filter (in_folder (F @ ''/resources'')) (map fst (files w4))"
  define w5 where "w5 = delete_resources faulty now F res qs w4"
  have sel: "snd (apply_snapshot faulty now F lst res w) =
     (if faulty (OpList (F @ ''/memos'')) then w3
      else if faulty (OpList (F @ ''/resources'')) then w4 else w5)"
    unfolding apply_snapshot_cases(1) w5_def qs_def w4_def ps_def w3_def w2_def using assms by simp
  have inps: "p \<in> set ps \<longleftrightarrow> in_folder (F @ ''/memos'') p \<and> lookup w3 p \<noteq> None"
    unfolding ps_def w3_def by (rule listed_memos)
  have l4: "lookup w4 p =
     (if in_folder (F @ ''/memos'') p \<and> p \<notin> set (map (memoPath F) (memos res)) \<and> \<not> faulty (OpRemove p)
      then None else lookup w3 p)"
    unfolding w4_def delete_memos_lookup inps by (auto simp del: set_map)
  have inqs: "p \<in> set qs \<longleftrightarrow> in_folder (F @ ''/resources'') p \<and> lookup w4 p \<noteq> None"
    unfolding qs_def by (auto simp: is_file_iff simp del: set_map)
  have l5: "lookup w5 p =
     (if in_folder (F @ ''/resources'') p \<and> p \<notin> set (map (resourcePath F) (resources res))
          \<and> \<not> faulty (OpRemove p)
      then None else lookup w4 p)"
    unfolding w5_def delete_resources_lookup inqs by (auto simp del: set_map)
  show ?thesis
    unfolding sel l5 l4 w3_def[symmetric] w2_def[symmetric]
    using folders_disjoint[of F p] l4 l5 by (auto simp del: set_map)
qed

lemma apply_snapshot_lookup_unchanged:
  assumes a: "\<forall>m \<in> set (memos res). skip_memo lst m \<or> memoPath F m \<noteq> p"
    and b: "(\<forall>r \<in> set (resources res). resourcePath F r \<noteq> p) \<or> lookup w p \<noteq> None"
    and c: "p \<in> set (map (memoPath F) (memos res)) \<or> \<not> in_folder (F @ ''/memos'') p"
    and d: "p \<in> set (map (resourcePath F) (resources res)) \<or> \<not> in_folder (F @ ''/resources'') p"
  shows "lookup (snd (apply_snapshot faulty now F lst res w)) p = lookup w p"
proof -
  define w1 where "w1 = snd (ensure_folder faulty (F @ ''/memos'') ''Created memos folder.'' w)"
  define w2 where "w2 = snd (ensure_folder faulty (F @ ''/resources'') ''Created resources folder.'' w1)"
  define w3 where "w3 = snd (sync_items faulty F lst res w2)"
  have l1: "lookup w1 p = lookup w p" by (simp add: w1_def)
  have l2: "lookup w2 p = lookup w p" by (simp add: w2_def l1)
  have l3: "lookup w3 p = lookup w p"
    unfolding w3_def using a b l2 by (subst sync_items_lookup_other) auto
  show ?thesis
  proof (cases "fst (ensure_folder faulty (F @ ''/memos'') ''Created memos folder.'' w) = Inr ()
      \<and> fst (ensure_folder faulty (F @ ''/resources'') ''Created resources folder.'' w1) = Inr ()")
    case True
    then show ?thesis
      using apply_snapshot_lookup_reached[where faulty = faulty and F = F and w = w and lst = lst
          and res = res and now = now and p = p] c d l3
      unfolding w1_def w2_def w3_def by (auto simp del: set_map)
  next
    case False
    then show ?thesis
      using l1 l2 unfolding apply_snapshot_cases(1) w1_def w2_def by auto
  qed
qed

lemma started_fields [simp]:
  "files (started res w) = files w" "folders (started res w) = folders w"
  "data (started res w) = data w" "calls (started res w) = calls w"
  "console (started res w) = console w"
  "settings (started res w) = settings (loadSettings w)"
  "fetched (started res w) = fetched w @ [openAPI (settings (loadSettings w))]"
  "lookup (started res w) p = lookup w p"
  by (simp_all add: started_def plugin_debug_def lookup_def)

lemma sync_fetched:
  assumes "openAPI (settings (loadSettings w)) \<noteq> ''''"
    and "fetchMemosWithResource (openAPI (settings (loadSettings w))) = Inr res"
  shows "sync fetchMemosWithResource faulty now w =
     (case apply_snapshot faulty now (folderToSync (settings (loadSettings w)))
             (lastSyncTime (settings (loadSettings w))) res (started res w) of
        (Inr u, w1) \<Rightarrow> w1
      | (Inl e, w1) \<Rightarrow>
          console_error e
            (plugin_log ''Failed to sync memos. Please check your OpenAPI key and network.''
               (Some 0) w1))"
  using assms by (simp add: sync_def sync_try_def Let_def started_def)

lemma sync_fetched_fields:
  fixes faulty now
  assumes "openAPI (settings (loadSettings w)) \<noteq> ''''"
    and "fetchMemosWithResource (openAPI (settings (loadSettings w))) = Inr res"
  defines "r \<equiv> apply_snapshot faulty now (folderToSync (settings (loadSettings w)))
             (lastSyncTime (settings (loadSettings w))) res (started res w)"
  shows "files (sync fetchMemosWithResource faulty now w) = files (snd r)"
    and "lookup (sync fetchMemosWithResource faulty now w) p = lookup (snd r) p"
    and "folders (sync fetchMemosWithResource faulty now w) = folders (snd r)"
    and "data (sync fetchMemosWithResource faulty now w) = data (snd r)"
    and "calls (sync fetchMemosWithResource faulty now w) = calls (snd r)"
    and "fst r = Inr () \<Longrightarrow> sync fetchMemosWithResource faulty now w = snd r"
  using assms(1,2) unfolding r_def lookup_def
  by (auto simp: sync_fetched split: prod.splits sum.splits)

lemma issued_self [simp]: "issued w w = []"
  by (simp add: issued_def)

lemma apply_snapshot_completes:
  "fst (apply_snapshot faulty now F lst res w) = Inr () \<longleftrightarrow>
     \<not> faulty (OpExists (F @ ''/memos''))
   \<and> (lookup w (F @ ''/memos'') \<noteq> None \<or> F @ ''/memos'' \<in> set (folders w)
        \<or> \<not> faulty (OpCreateFolder (F @ ''/memos'')))
   \<and> \<not> faulty (OpExists (F @ ''/resources''))
   \<and> (lookup w (F @ ''/resources'') \<noteq> None \<or> F @ ''/resources'' \<in> set (folders w)
        \<or> \<not> faulty (OpCreateFolder (F @ ''/resources'')))
   \<and> \<not> faulty (OpList (F @ ''/memos'')) \<and> \<not> faulty (OpList (F @ ''/resources''))"
  unfolding apply_snapshot_cases(2) ensure_folder_fst
  by (auto simp: ensure_folder_folders)

lemma apply_snapshot_data:
  "data (snd (apply_snapshot faulty now F lst res w)) =
     (if fst (apply_snapshot faulty now F lst res w) = Inr () then checkpoint (settings w) now
      else data w)"
  unfolding apply_snapshot_cases by simp

lemma sync_memo_zero: "sync_memo faulty F (Some 0) = sync_memo faulty F None"
  by (intro ext) (simp add: sync_memo_def skip_memo_def)

lemma sync_items_zero: "sync_items faulty F (Some 0) = sync_items faulty F None"
  by (intro ext) (simp add: sync_items_def sync_memo_zero)

lemma apply_snapshot_zero: "apply_snapshot faulty now F (Some 0) = apply_snapshot faulty now F None"
  unfolding apply_snapshot_def sync_items_zero by (rule refl)

lemma sync_try_zero:
  "sync_try fetchMemosWithResource faulty now key F (Some 0) w =
   sync_try fetchMemosWithResource faulty now key F None w"
  unfolding sync_try_def apply_snapshot_zero by (rule refl)

lemma apply_snapshot_console [simp]:
  "console (snd (apply_snapshot faulty now F lst res w)) = console w"
  unfolding apply_snapshot_cases(1) by simp

lemma apply_snapshot_folders:
  "folders (snd (apply_snapshot faulty now F lst res u)) =
     (if fst (ensure_folder faulty (F @ ''/memos'') ''Created memos folder.'' u) \<noteq> Inr ()
      then folders (snd (ensure_folder faulty (F @ ''/memos'') ''Created memos folder.'' u))
      else folders (snd (ensure_folder faulty (F @ ''/resources'') ''Created resources folder.''
                (snd (ensure_folder faulty (F @ ''/memos'') ''Created memos folder.'' u)))))"
  unfolding apply_snapshot_cases(1) by simp

lemma apply_snapshot_lookup_completed:
  assumes "fst (apply_snapshot faulty now F lst res w) = Inr ()"
  shows "lookup (snd (apply_snapshot faulty now F lst res w)) p =
     (if (in_folder (F @ ''/memos'') p \<and> p \<notin> set (map (memoPath F) (memos res))
          \<or> in_folder (F @ ''/resources'') p \<and> p \<notin> set (map (resourcePath F) (resources res)))
         \<and> \<not> faulty (OpRemove p)
      then None
      else lookup (snd (sync_items faulty F lst res
             (snd (ensure_folder faulty (F @ ''/resources'') ''Created resources folder.''
                (snd (ensure_folder faulty (F @ ''/memos'') ''Created memos folder.'' w)))))) p)"
proof -
  have ok: "fst (ensure_folder faulty (F @ ''/memos'') ''Created memos folder.'' w) = Inr ()"
    "fst (ensure_folder faulty (F @ ''/resources'') ''Created resources folder.''
       (snd (ensure_folder faulty (F @ ''/memos'') ''Created memos folder.'' w))) = Inr ()"
    "\<not> faulty (OpList (F @ ''/memos''))" "\<not> faulty (OpList (F @ ''/resources''))"
    using assms unfolding apply_snapshot_cases(2) by simp_all
  show ?thesis
    unfolding apply_snapshot_lookup_reached[OF ok(1,2)] using ok(3,4) by simp
qed

lemma apply_snapshot_memo_written:
  assumes "fst (ensure_folder faulty (F @ ''/memos'') ''Created memos folder.'' w) = Inr ()"
    and "fst (ensure_folder faulty (F @ ''/resources'') ''Created resources folder.''
            (snd (ensure_folder faulty (F @ ''/memos'') ''Created memos folder.'' w))) = Inr ()"
    and "m \<in> set (memos res)" "distinct (map memo_id (memos res))" "\<not> skip_memo lst m"
    and "\<not> faulty (OpWrite (memoPath F m))"
  shows "lookup (snd (apply_snapshot faulty now F lst res w)) (memoPath F m) =
           Some (Text (memo_content m))"
  unfolding apply_snapshot_lookup_reached[OF assms(1,2)]
  using assms(3) sync_items_memo_written[where faulty = faulty and F = F and m = m, OF assms(3,4,5,6)] by simp

subsection \<open>the notices of a run\<close>

lemma silent_simps [simp]:
  "silent []" "silent (a @ b) \<longleftrightarrow> silent a \<and> silent b"
  by (auto simp: silent_def)
















subsection \<open>the calls of a run\<close>

lemma listed_resources:
  assumes "\<forall>q \<in> set ps. in_folder (F @ ''/memos'') q"
  shows "p \<in> set (filter (in_folder (F @ ''/resources''))
                (map fst (files (snd (delete_memos faulty F res ps w))))) \<longleftrightarrow>
         in_folder (F @ ''/resources'') p \<and> lookup w p \<noteq> None"
proof (cases "in_folder (F @ ''/resources'') p")
  case True
  then have "p \<notin> set ps" using assms folders_disjoint by blast
  then have "lookup (snd (delete_memos faulty F res ps w)) p = lookup w p"
    by (simp add: delete_memos_lookup)
  then show ?thesis using True by (simp add: is_file_iff del: set_map)
next
  case False
  then show ?thesis by simp
qed

lemma apply_snapshot_trace:
  "\<exists>E R D. set (drop (length (calls w)) (calls (snd (apply_snapshot faulty now F lst res w)))) =
      set E \<union>
       (if reaches faulty F w then
          set (map (\<lambda>m. OpWrite (memoPath F m)) (filter (\<lambda>m. \<not> skip_memo lst m) (memos res)))
            \<union> set R \<union> set D
        else {})
    \<and> folder_calls E \<and> resource_calls F res w R \<and> orphan_calls faulty F res w D"
proof -
  define w1 where "w1 = snd (ensure_folder faulty (F @ ''/memos'') ''Created memos folder.'' w)"
  define w2 where "w2 = snd (ensure_folder faulty (F @ ''/resources'') ''Created resources folder.'' w1)"
  define w3 where "w3 = snd (sync_items faulty F lst res w2)"
  define ps where "ps = filter (in_folder (F @ ''/memos''))
                  (map fst (files (fold (sync_memo faulty F lst) (memos res) w2)))"
  define w4 where "w4 = snd (delete_memos faulty F res ps w3)"
  define qs where "qs = filter (in_folder (F @ ''/resources'')) (map fst (files w4))"
  define w5 where "w5 = delete_resources faulty now F res qs w4"
  define O4 where "O4 = filter (\<lambda>p. p \<notin> set (map (memoPath F) (memos res))) ps"
  define O5 where "O5 = filter (\<lambda>p. p \<notin> set (map (resourcePath F) (resources res))) qs"
  define W where "W = map (\<lambda>m. OpWrite (memoPath F m)) (filter (\<lambda>m. \<not> skip_memo lst m) (memos res))"
  define X where "X = map (\<lambda>r. OpExists (resourcePath F r)) (resources res)"
  define D where "D = OpList (F @ ''/memos'') #
            (if faulty (OpList (F @ ''/memos'')) then []
             else map OpRemove O4 @ OpList (F @ ''/resources'') #
                    (if faulty (OpList (F @ ''/resources'')) then [] else map OpRemove O5))"
  define ok1 where "ok1 \<longleftrightarrow> fst (ensure_folder faulty (F @ ''/memos'') ''Created memos folder.'' w) = Inr ()"
  define ok2 where "ok2 \<longleftrightarrow> fst (ensure_folder faulty (F @ ''/resources'') ''Created resources folder.'' w1) = Inr ()"
  have l2: "lookup w2 p = lookup w p" for p by (simp add: w2_def w1_def)
  have reach: "reaches faulty F w \<longleftrightarrow> ok1 \<and> ok2"
    unfolding reaches_def ok1_def ok2_def ensure_folder_fst w1_def
    by (auto simp: ensure_folder_folders)
  obtain E1 where E1: "calls w1 = calls w @ E1" "folder_calls E1"
    unfolding w1_def folder_calls_def by (simp add: ensure_folder_calls)
  obtain E2 where E2: "calls w2 = calls w1 @ E2" "folder_calls E2"
    unfolding w2_def folder_calls_def by (simp add: ensure_folder_calls)
  have E12: "folder_calls (E1 @ E2)"
    using E1(2) E2(2) unfolding folder_calls_def by auto
  obtain B where B: "calls w3 = calls w2 @ W @ X @ OpList (F @ ''/memos'') # B"
      "\<forall>c \<in> set B. \<exists>r \<in> set (resources res).
           c = OpWriteBinary (resourcePath F r) \<and> lookup w2 (resourcePath F r) = None"
    unfolding w3_def W_def X_def using sync_items_calls[of faulty F lst res w2] by blast
  have RC: "resource_calls F res w (X @ B)"
    unfolding resource_calls_def X_def using B(2) l2 by auto
  have c4: "calls w4 = calls w3 @ map OpRemove O4 @ [OpList (F @ ''/resources'')]"
    unfolding w4_def O4_def by (rule delete_memos_calls)
  have c5: "calls w5 = calls w4 @ map OpRemove O5"
    unfolding w5_def O5_def by (rule delete_resources_calls)
  have inps: "p \<in> set ps \<longleftrightarrow> in_folder (F @ ''/memos'') p \<and> lookup w3 p \<noteq> None" for p
    unfolding ps_def w3_def by (rule listed_memos)
  have inqs: "p \<in> set qs \<longleftrightarrow> in_folder (F @ ''/resources'') p \<and> lookup w3 p \<noteq> None" for p
    unfolding qs_def w4_def by (rule listed_resources) (simp add: inps)
  have o4: "p \<in> set O4 \<longleftrightarrow> memo_orphan F res w p" for p
  proof (cases "in_folder (F @ ''/memos'') p \<and> p \<notin> set (map (memoPath F) (memos res))")
    case True
    then have "lookup w3 p = lookup w p"
      unfolding w3_def using sync_items_lookup_memo_orphan[of F p res faulty lst w2] l2 by simp
    with True show ?thesis by (simp add: O4_def memo_orphan_def inps del: set_map)
  next
    case False
    then show ?thesis by (auto simp: O4_def memo_orphan_def inps)
  qed
  have o5: "p \<in> set O5 \<longleftrightarrow> resource_orphan F res w p" for p
  proof (cases "in_folder (F @ ''/resources'') p \<and> p \<notin> set (map (resourcePath F) (resources res))")
    case True
    then have "lookup w3 p = lookup w p"
      unfolding w3_def using sync_items_lookup_resource_orphan[of F p res faulty lst w2] l2 by simp
    with True show ?thesis by (simp add: O5_def resource_orphan_def inqs del: set_map)
  next
    case False
    then show ?thesis by (auto simp: O5_def resource_orphan_def inqs)
  qed
  have OC: "orphan_calls faulty F res w D"
    unfolding orphan_calls_def D_def using o4 o5 by auto
  have sel: "snd (apply_snapshot faulty now F lst res w) =
     (if \<not> ok1 then w1 else if \<not> ok2 then w2
      else if faulty (OpList (F @ ''/memos'')) then w3
      else if faulty (OpList (F @ ''/resources'')) then w4
      else w5)"
    unfolding apply_snapshot_cases(1) w1_def w2_def w3_def w4_def w5_def ps_def qs_def ok1_def ok2_def ..
  show ?thesis
  proof (cases ok1)
    case False
    then have cc: "drop (length (calls w)) (calls (snd (apply_snapshot faulty now F lst res w))) = E1"
      using sel E1 by simp
    show ?thesis
      apply (rule exI[of _ E1], rule exI[of _ "X @ B"], rule exI[of _ D])
      using cc False E1(2) RC OC reach by simp
  next
    case T1: True
    show ?thesis
    proof (cases ok2)
      case False
      then have cc: "drop (length (calls w)) (calls (snd (apply_snapshot faulty now F lst res w))) = E1 @ E2"
        using sel T1 E1 E2 by simp
      show ?thesis
        apply (rule exI[of _ "E1 @ E2"], rule exI[of _ "X @ B"], rule exI[of _ D])
        using cc E12 False RC OC reach by simp
    next
      case T2: True
      have cc: "drop (length (calls w)) (calls (snd (apply_snapshot faulty now F lst res w))) =
        (E1 @ E2) @ W @ X @ OpList (F @ ''/memos'') # B @
            (if faulty (OpList (F @ ''/memos'')) then []
             else map OpRemove O4 @ OpList (F @ ''/resources'') #
                    (if faulty (OpList (F @ ''/resources'')) then [] else map OpRemove O5))"
        using sel T1 T2 E1(1) E2(1) B(1) c4 c5 by simp
      have ss: "set (drop (length (calls w)) (calls (snd (apply_snapshot faulty now F lst res w)))) =
          set (E1 @ E2) \<union> (set W \<union> set (X @ B) \<union> set D)"
        unfolding cc D_def by auto
      show ?thesis
        apply (rule exI[of _ "E1 @ E2"], rule exI[of _ "X @ B"], rule exI[of _ D])
        using ss reach T1 T2 E12 RC OC by (simp add: W_def)
    qed
  qed
qed

lemma sync_trace:
  fixes faulty now
  assumes "openAPI (settings (loadSettings w)) \<noteq> ''''"
    and "fetchMemosWithResource (openAPI (settings (loadSettings w))) = Inr res"
    and F: "F = folderToSync (settings (loadSettings w))"
    and lst: "lst = lastSyncTime (settings (loadSettings w))"
  shows "\<exists>E R D. set (issued w (sync fetchMemosWithResource faulty now w)) =
      set E \<union>
       (if reaches faulty F w then
          set (map (\<lambda>m. OpWrite (memoPath F m)) (filter (\<lambda>m. \<not> skip_memo lst m) (memos res)))
            \<union> set R \<union> set D
        else {})
    \<and> folder_calls E \<and> resource_calls F res w R \<and> orphan_calls faulty F res w D"
proof -
  note sf = sync_fetched_fields[where fetchMemosWithResource = fetchMemosWithResource
      and w = w and res = res and faulty = faulty and now = now, OF assms(1,2)]
  have c: "calls (sync fetchMemosWithResource faulty now w) =
      calls (snd (apply_snapshot faulty now F lst res (started res w)))"
    using sf(5) by (simp add: F lst)
  have same: "reaches faulty F (started res w) = reaches faulty F w"
    "resource_calls F res (started res w) = resource_calls F res w"
    "orphan_calls faulty F res (started res w) = orphan_calls faulty F res w"
    by (simp_all add: reaches_def resource_calls_def orphan_calls_def memo_orphan_def
        resource_orphan_def fun_eq_iff)
  show ?thesis
    using apply_snapshot_trace[of "started res w" faulty now F lst res]
    unfolding same issued_def c by (simp only: started_fields)
qed

subsection \<open>a run that completes\<close>

lemma run_completes_iff:
  assumes "openAPI (settings (loadSettings w)) \<noteq> ''''"
    and "fetchMemosWithResource (openAPI (settings (loadSettings w))) = Inr res"
  shows "run_completes fetchMemosWithResource faulty w \<longleftrightarrow>
     fst (apply_snapshot faulty now (folderToSync (settings (loadSettings w)))
             (lastSyncTime (settings (loadSettings w))) res (started res w)) = Inr ()"
  using assms by (simp add: run_completes_def apply_snapshot_completes Let_def)


lemma completed_run_data:
  "run_completes fetchMemosWithResource faulty w \<Longrightarrow>
      data (sync fetchMemosWithResource faulty now w) =
        \<lparr>s_openAPI = Some (openAPI (settings (loadSettings w))),
         s_folderToSync = Some (folderToSync (settings (loadSettings w))),
         s_debug = Some (debug (settings (loadSettings w))),
         s_lastSyncTime = Some now\<rparr>"
proof -
  assume rc: "run_completes fetchMemosWithResource faulty w"
  then have key: "openAPI (settings (loadSettings w)) \<noteq> ''''"
    by (simp add: run_completes_def Let_def)
  from rc obtain res where fetch: "fetchMemosWithResource (openAPI (settings (loadSettings w))) = Inr res"
    by (auto simp: run_completes_def Let_def split: sum.splits)
  note sf = sync_fetched_fields[where fetchMemosWithResource = fetchMemosWithResource
      and w = w and res = res and faulty = faulty and now = now, OF key fetch]
  show ?thesis
    unfolding sf(4) apply_snapshot_data
    using rc run_completes_iff[where fetchMemosWithResource = fetchMemosWithResource and w = w
        and res = res and faulty = faulty and now = now, OF key fetch] by (simp add: checkpoint_def)
qed

lemma apply_snapshot_no_faults [simp]:
  "fst (apply_snapshot no_faults now F lst res u) = Inr ()"
  by (simp add: apply_snapshot_completes)

lemma ensure_folders_present:
  fixes F u
  defines "u2 \<equiv> snd (ensure_folder no_faults (F @ ''/resources'') ''Created resources folder.''
                (snd (ensure_folder no_faults (F @ ''/memos'') ''Created memos folder.'' u)))"
  shows "lookup u2 (F @ ''/memos'') \<noteq> None \<or> F @ ''/memos'' \<in> set (folders u2)"
    and "lookup u2 (F @ ''/resources'') \<noteq> None \<or> F @ ''/resources'' \<in> set (folders u2)"
    and "set (folders u2) \<subseteq> set (folders u) \<union> {F @ ''/memos'', F @ ''/resources''}"
    and "lookup u2 p = lookup u p"
  unfolding u2_def by (auto simp: ensure_folder_folders)

lemma apply_snapshot_converges:
  fixes now F lst res u
  defines "u' \<equiv> snd (apply_snapshot no_faults now F lst res u)"
  assumes d: "distinct (map memo_id (memos res))"
  shows "\<forall>m \<in> set (memos res). \<not> skip_memo lst m \<longrightarrow>
            lookup u' (memoPath F m) = Some (Text (memo_content m))"
    and "\<forall>p. lookup u' p \<noteq> None \<and> in_folder (F @ ''/memos'') p \<longrightarrow>
            p \<in> set (map (memoPath F) (memos res))"
    and "\<forall>p. lookup u' p \<noteq> None \<and> in_folder (F @ ''/resources'') p \<longrightarrow>
            p \<in> set (map (resourcePath F) (resources res))"
    and "\<forall>r \<in> set (resources res). lookup u' (resourcePath F r) \<noteq> None
            \<or> resourcePath F r \<in> set (folders u')"
    and "distinct (map filename (resources res)) \<Longrightarrow>
         \<forall>r \<in> set (resources res). resourcePath F r \<notin> set (folders u) \<longrightarrow>
            lookup u' (resourcePath F r) =
              (case lookup u (resourcePath F r) of Some c \<Rightarrow> Some c
               | None \<Rightarrow> Some (Binary (resource_content r)))"
    and "lookup u' (F @ ''/memos'') \<noteq> None \<or> F @ ''/memos'' \<in> set (folders u')"
    and "lookup u' (F @ ''/resources'') \<noteq> None \<or> F @ ''/resources'' \<in> set (folders u')"
proof -
  define u2 where "u2 = snd (ensure_folder no_faults (F @ ''/resources'') ''Created resources folder.''
                (snd (ensure_folder no_faults (F @ ''/memos'') ''Created memos folder.'' u)))"
  define u3 where "u3 = snd (sync_items no_faults F lst res u2)"
  have fin: "lookup u' p =
     (if in_folder (F @ ''/memos'') p \<and> p \<notin> set (map (memoPath F) (memos res))
          \<or> in_folder (F @ ''/resources'') p \<and> p \<notin> set (map (resourcePath F) (resources res))
      then None else lookup u3 p)" for p
    unfolding u'_def u3_def u2_def
    by (subst apply_snapshot_lookup_completed) (simp_all del: set_map)
  have fo: "folders u' = folders u2"
    unfolding u'_def u2_def apply_snapshot_folders by (simp add: ensure_folder_fst)
  have pres: "lookup u2 (F @ ''/memos'') \<noteq> None \<or> F @ ''/memos'' \<in> set (folders u2)"
      "lookup u2 (F @ ''/resources'') \<noteq> None \<or> F @ ''/resources'' \<in> set (folders u2)"
      "set (folders u2) \<subseteq> set (folders u) \<union> {F @ ''/memos'', F @ ''/resources''}"
    and l2: "lookup u2 p = lookup u p" for p
    unfolding u2_def by (rule ensure_folders_present)+
  have mono: "lookup u2 p \<noteq> None \<Longrightarrow> lookup u3 p \<noteq> None" for p
    unfolding u3_def by (rule sync_items_lookup_mono)
  show "\<forall>m \<in> set (memos res). \<not> skip_memo lst m \<longrightarrow>
            lookup u' (memoPath F m) = Some (Text (memo_content m))"
  proof (intro ballI impI)
    fix m assume m: "m \<in> set (memos res)" and ns: "\<not> skip_memo lst m"
    have "lookup u3 (memoPath F m) = Some (Text (memo_content m))"
      unfolding u3_def using m d ns by (intro sync_items_memo_written) simp_all
    then show "lookup u' (memoPath F m) = Some (Text (memo_content m))"
      using m by (simp add: fin)
  qed
  show "\<forall>p. lookup u' p \<noteq> None \<and> in_folder (F @ ''/memos'') p \<longrightarrow>
            p \<in> set (map (memoPath F) (memos res))"
    unfolding fin by (auto simp del: set_map)
  show "\<forall>p. lookup u' p \<noteq> None \<and> in_folder (F @ ''/resources'') p \<longrightarrow>
            p \<in> set (map (resourcePath F) (resources res))"
    unfolding fin by (auto simp del: set_map)
  show "\<forall>r \<in> set (resources res). lookup u' (resourcePath F r) \<noteq> None
            \<or> resourcePath F r \<in> set (folders u')"
  proof
    fix r assume r: "r \<in> set (resources res)"
    have "lookup u3 (resourcePath F r) \<noteq> None \<or> resourcePath F r \<in> set (folders u2)"
      unfolding u3_def using r by (intro sync_items_resource_present) simp_all
    then show "lookup u' (resourcePath F r) \<noteq> None \<or> resourcePath F r \<in> set (folders u')"
      using r by (simp add: fin fo)
  qed
  show "\<forall>r \<in> set (resources res). resourcePath F r \<notin> set (folders u) \<longrightarrow>
            lookup u' (resourcePath F r) =
              (case lookup u (resourcePath F r) of Some c \<Rightarrow> Some c
               | None \<Rightarrow> Some (Binary (resource_content r)))"
    if dr: "distinct (map filename (resources res))"
  proof (intro ballI impI)
    fix r assume r: "r \<in> set (resources res)" and nf: "resourcePath F r \<notin> set (folders u)"
    have "resourcePath F r \<notin> set (folders u2)"
      using nf pres(3) by auto
    then have "lookup u3 (resourcePath F r) =
       (case lookup u2 (resourcePath F r) of Some c \<Rightarrow> Some c
        | None \<Rightarrow> Some (Binary (resource_content r)))"
      unfolding u3_def using r dr by (intro sync_items_resource_created) simp_all
    then show "lookup u' (resourcePath F r) =
              (case lookup u (resourcePath F r) of Some c \<Rightarrow> Some c
               | None \<Rightarrow> Some (Binary (resource_content r)))"
      using r by (simp add: fin l2)
  qed
  show "lookup u' (F @ ''/memos'') \<noteq> None \<or> F @ ''/memos'' \<in> set (folders u')"
    using pres(1) mono[of "F @ ''/memos''"] by (auto simp: fin fo)
  show "lookup u' (F @ ''/resources'') \<noteq> None \<or> F @ ''/resources'' \<in> set (folders u')"
    using pres(2) mono[of "F @ ''/resources''"] by (auto simp: fin fo)
qed

lemma sync_no_faults:
  assumes "openAPI (settings (loadSettings w)) \<noteq> ''''"
    and "fetchMemosWithResource (openAPI (settings (loadSettings w))) = Inr res"
  shows "sync fetchMemosWithResource no_faults now w =
     snd (apply_snapshot no_faults now (folderToSync (settings (loadSettings w)))
             (lastSyncTime (settings (loadSettings w))) res (started res w))"
  using sync_fetched_fields(6)[where fetchMemosWithResource = fetchMemosWithResource
      and w = w and res = res and faulty = no_faults and now = now, OF assms]
  by simp

lemma apply_snapshot_noop:
  assumes P1: "\<forall>m \<in> set (memos res). skip_memo lst m
                 \<or> lookup u (memoPath F m) = Some (Text (memo_content m))"
    and P2: "\<forall>r \<in> set (resources res). lookup u (resourcePath F r) \<noteq> None
                 \<or> resourcePath F r \<in> set (folders u)"
    and P3: "\<forall>p. lookup u p \<noteq> None \<and> in_folder (F @ ''/memos'') p \<longrightarrow>
                 p \<in> set (map (memoPath F) (memos res))"
    and P4: "\<forall>p. lookup u p \<noteq> None \<and> in_folder (F @ ''/resources'') p \<longrightarrow>
                 p \<in> set (map (resourcePath F) (resources res))"
    and P5: "lookup u (F @ ''/memos'') \<noteq> None \<or> F @ ''/memos'' \<in> set (folders u)"
    and P6: "lookup u (F @ ''/resources'') \<noteq> None \<or> F @ ''/resources'' \<in> set (folders u)"
  shows "files (snd (apply_snapshot faulty now F lst res u)) = files u"
    and "folders (snd (apply_snapshot faulty now F lst res u)) = folders u"
proof -
  define u1 where "u1 = snd (ensure_folder faulty (F @ ''/memos'') ''Created memos folder.'' u)"
  define u2 where "u2 = snd (ensure_folder faulty (F @ ''/resources'') ''Created resources folder.'' u1)"
  define u3 where "u3 = snd (sync_items faulty F lst res u2)"
  define ps where "ps = filter (in_folder (F @ ''/memos''))
                  (map fst (files (fold (sync_memo faulty F lst) (memos res) u2)))"
  define u4 where "u4 = snd (delete_memos faulty F res ps u3)"
  define qs where "qs = filter (in_folder (F @ ''/resources'')) (map fst (files u4))"
  define u5 where "u5 = delete_resources faulty now F res qs u4"
  have f1: "files u1 = files u"
    unfolding u1_def by simp
  have d1: "folders u1 = folders u"
    unfolding u1_def using P5 by (auto simp: ensure_folder_folders)
  have f2: "files u2 = files u"
    unfolding u2_def using f1 by simp
  have d2: "folders u2 = folders u"
    unfolding u2_def using P6 d1 same_files_lookup[OF f1, of "F @ ''/resources''"]
    by (auto simp: ensure_folder_folders)
  have l2: "lookup u2 p = lookup u p" for p using f2 by (rule same_files_lookup)
  have "files u3 = files u2"
    unfolding u3_def using P1 P2 by (intro sync_items_noop) (simp_all add: l2 d2)
  then have f3: "files u3 = files u" using f2 by simp
  have l3: "lookup u3 p = lookup u p" for p using f3 by (rule same_files_lookup)
  have inps: "p \<in> set ps \<longleftrightarrow> in_folder (F @ ''/memos'') p \<and> lookup u3 p \<noteq> None" for p
    unfolding ps_def u3_def by (rule listed_memos)
  have f4: "files u4 = files u"
    unfolding u4_def using P3 f3 by (subst delete_memos_noop) (simp_all add: inps l3 del: set_map)
  have l4: "lookup u4 p = lookup u p" for p using f4 by (rule same_files_lookup)
  have inqs: "p \<in> set qs \<longleftrightarrow> in_folder (F @ ''/resources'') p \<and> lookup u4 p \<noteq> None" for p
    unfolding qs_def by (auto simp: is_file_iff simp del: set_map)
  have f5: "files u5 = files u"
    unfolding u5_def using P4 f4 by (subst delete_resources_noop) (simp_all add: inqs l4 del: set_map)
  have sel: "snd (apply_snapshot faulty now F lst res u) =
     (if fst (ensure_folder faulty (F @ ''/memos'') ''Created memos folder.'' u) \<noteq> Inr () then u1
      else if fst (ensure_folder faulty (F @ ''/resources'') ''Created resources folder.'' u1) \<noteq> Inr () then u2
      else if faulty (OpList (F @ ''/memos'')) then u3
      else if faulty (OpList (F @ ''/resources'')) then u4
      else u5)"
    unfolding apply_snapshot_cases(1) u1_def u2_def u3_def u4_def u5_def ps_def qs_def ..
  show "files (snd (apply_snapshot faulty now F lst res u)) = files u"
    unfolding sel using f1 f2 f3 f4 f5 by simp
  show "folders (snd (apply_snapshot faulty now F lst res u)) = folders u"
    unfolding apply_snapshot_folders using d1 d2 by (simp add: u1_def u2_def)
qed

lemma rerun_noop:
  fixes earlier later
  assumes key: "openAPI (settings (loadSettings w)) \<noteq> ''''"
    and fetch: "fetchMemosWithResource (openAPI (settings (loadSettings w))) = Inr res"
    and none: "lastSyncTime (settings (loadSettings w)) = None"
    and d: "distinct (map memo_id (memos res))"
    and v1: "files v = files (sync fetchMemosWithResource no_faults earlier w)"
    and v2: "folders v = folders (sync fetchMemosWithResource no_faults earlier w)"
    and v3: "openAPI (settings (loadSettings v)) = openAPI (settings (loadSettings w))"
    and v4: "folderToSync (settings (loadSettings v)) = folderToSync (settings (loadSettings w))"
  shows "files (sync fetchMemosWithResource no_faults later v) = files v
    \<and> folders (sync fetchMemosWithResource no_faults later v) = folders v
    \<and> (\<forall>p. OpRemove p \<notin> set (issued v (sync fetchMemosWithResource no_faults later v)))"
proof -
  define F where "F = folderToSync (settings (loadSettings w))"
  define lst where "lst = lastSyncTime (settings (loadSettings v))"
  define w1 where "w1 = sync fetchMemosWithResource no_faults earlier w"
  have eq1: "w1 = snd (apply_snapshot no_faults earlier F None res (started res w))"
    using sync_no_faults[where fetchMemosWithResource = fetchMemosWithResource and w = w
        and res = res and now = earlier, OF key fetch] none by (simp add: F_def w1_def)
  note c = apply_snapshot_converges[where now = earlier and F = F and lst = None
      and u = "started res w", OF d, folded eq1]
  have keyv: "openAPI (settings (loadSettings v)) \<noteq> ''''" using key v3 by simp
  have fetchv: "fetchMemosWithResource (openAPI (settings (loadSettings v))) = Inr res"
    using fetch v3 by simp
  have Fv: "F = folderToSync (settings (loadSettings v))" using v4 by (simp add: F_def)
  have eq2: "sync fetchMemosWithResource no_faults later v =
      snd (apply_snapshot no_faults later F lst res (started res v))"
    using sync_no_faults[where fetchMemosWithResource = fetchMemosWithResource and w = v
        and res = res and now = later, OF keyv fetchv] by (simp add: Fv lst_def)
  have lv: "lookup v p = lookup w1 p" for p
    using v1 by (simp add: lookup_def w1_def)
  have dv: "folders v = folders w1" using v2 by (simp add: w1_def)
  have ns: "\<not> skip_memo None m" for m by (simp add: skip_memo_def)
  have P1: "\<forall>m \<in> set (memos res). skip_memo lst m
                 \<or> lookup (started res v) (memoPath F m) = Some (Text (memo_content m))"
    using c(1) ns by (simp add: lv)
  have P3: "\<forall>p. lookup (started res v) p \<noteq> None \<and> in_folder (F @ ''/memos'') p \<longrightarrow>
                 p \<in> set (map (memoPath F) (memos res))"
    using c(2) by (simp add: lv del: set_map)
  have P4: "\<forall>p. lookup (started res v) p \<noteq> None \<and> in_folder (F @ ''/resources'') p \<longrightarrow>
                 p \<in> set (map (resourcePath F) (resources res))"
    using c(3) by (simp add: lv del: set_map)
  have P2: "\<forall>r \<in> set (resources res). lookup (started res v) (resourcePath F r) \<noteq> None
                 \<or> resourcePath F r \<in> set (folders (started res v))"
    using c(4) by (simp add: lv dv)
  have P5: "lookup (started res v) (F @ ''/memos'') \<noteq> None \<or> F @ ''/memos'' \<in> set (folders (started res v))"
    using c(6) by (simp add: lv dv)
  have P6: "lookup (started res v) (F @ ''/resources'') \<noteq> None
      \<or> F @ ''/resources'' \<in> set (folders (started res v))"
    using c(7) by (simp add: lv dv)
  note n = apply_snapshot_noop[where faulty = no_faults and now = later, OF P1 P2 P3 P4 P5 P6]
  have A: "files (sync fetchMemosWithResource no_faults later v) = files v"
    unfolding eq2 using n(1) by simp
  have B: "folders (sync fetchMemosWithResource no_faults later v) = folders v"
    unfolding eq2 using n(2) by simp
  obtain E R D where t: "set (issued v (sync fetchMemosWithResource no_faults later v)) =
      set E \<union> (if reaches no_faults F v then
            set (map (\<lambda>m. OpWrite (memoPath F m)) (filter (\<lambda>m. \<not> skip_memo lst m) (memos res)))
              \<union> set R \<union> set D
           else {})"
    and p: "folder_calls E" "resource_calls F res v R" "orphan_calls no_faults F res v D"
    using sync_trace[where fetchMemosWithResource = fetchMemosWithResource and w = v
        and res = res and F = F and lst = lst and faulty = no_faults and now = later,
        OF keyv fetchv Fv lst_def] by auto
  have no: "\<not> memo_orphan F res v p \<and> \<not> resource_orphan F res v p" for p
    using P3 P4 by (auto simp: memo_orphan_def resource_orphan_def simp del: set_map)
  have C: "OpRemove p \<notin> set (issued v (sync fetchMemosWithResource no_faults later v))" for p
    unfolding t using p no by (auto simp: folder_calls_def resource_calls_def orphan_calls_def)
  from A B C show ?thesis by blast
qed

subsection \<open>the example vaults\<close>

lemma used_vault_settings:
  "openAPI (settings (loadSettings used_vault)) = ''secret''"
  "folderToSync (settings (loadSettings used_vault)) = ''V''"
  "lastSyncTime (settings (loadSettings used_vault)) = None"
  by code_simp+

lemma debug_vault_settings:
  "openAPI (settings (loadSettings debug_vault)) = ''secret''"
  "folderToSync (settings (loadSettings debug_vault)) = ''V''"
  "debug (settings (loadSettings debug_vault)) = True"
  "lastSyncTime (settings (loadSettings debug_vault)) = None"
  by code_simp+

lemma reaches_iff:
  "reaches faulty F w \<longleftrightarrow>
     fst (ensure_folder faulty (F @ ''/memos'') ''Created memos folder.'' w) = Inr ()
   \<and> fst (ensure_folder faulty (F @ ''/resources'') ''Created resources folder.''
            (snd (ensure_folder faulty (F @ ''/memos'') ''Created memos folder.'' w))) = Inr ()"
  unfolding reaches_def ensure_folder_fst by (auto simp: ensure_folder_folders)

lemma reaches_started [simp]: "reaches faulty F (started res w) = reaches faulty F w"
  by (simp add: reaches_def)





text \<open>
  The order of effects in one run (lines 80-139): the writes of the memos, every
  existence check of a resource, the listing of the memos folder, the binary writes, the
  removals in the memos folder, the listing of the resources folder, the removals in the
  resources folder; the debug notice of a removal in the resources folder is shown after
  the success notice.
\<close>

lemma order_of_effects_example:
  "calls (sync example_fetch no_faults 5 debug_vault) =
     [OpExists ''V/memos'', OpCreateFolder ''V/memos'',
      OpExists ''V/resources'', OpCreateFolder ''V/resources'',
      OpWrite ''V/memos/a.md'', OpExists ''V/resources/img.png'', OpList ''V/memos'',
      OpWriteBinary ''V/resources/img.png'', OpList ''V/resources'']
   \<and> notices (sync example_fetch no_faults 5 debug_used_vault) =
     [(''Start syncing memos.'', None),
      (''Fetch memos from API successfully. Total: 1'', Some 0),
      (''Synced memo: a'', Some 0),
      (''Deleted memo: V/memos/b.md'', Some 0),
      (''Sync memos successfully.'', None),
      (''Deleted resource: V/resources/x.bin'', Some 0)]"
  by code_simp

text \<open>
  Two resources with the same filename, no file at their path: both existence checks
  are answered before either write is issued, both writes are issued, and the file holds
  the content of the second.
\<close>

lemma duplicate_filename_example:
  "calls (sync duplicate_fetch no_faults 5 example_vault) =
     [OpExists ''V/memos'', OpCreateFolder ''V/memos'',
      OpExists ''V/resources'', OpCreateFolder ''V/resources'',
      OpExists ''V/resources/x.bin'', OpExists ''V/resources/x.bin'', OpList ''V/memos'',
      OpWriteBinary ''V/resources/x.bin'', OpWriteBinary ''V/resources/x.bin'',
      OpList ''V/resources'']
   \<and> lookup (sync duplicate_fetch no_faults 5 example_vault) ''V/resources/x.bin'' = Some (Binary [2])"
  by code_simp

section \<open>The claims\<close>

text \<open>
  C1 (convergence). A run with a non-empty credential, a successful fetch and no
  \<open>lastSyncTime\<close>, in which no adapter call fails, on a snapshot with unique memo ids
  and unique resource filenames and a vault with no folder at the path of a resource:
  afterwards every memo of the snapshot has its file \<open>folder/memos/id.md\<close> with the
  memo's content, every file directly in the memos folder is the file of a memo of the
  snapshot, every resource of the snapshot has its file (the file that was there, or else a
  new one with the resource's content), and every file directly in the resources folder
  is the file of a resource of the snapshot.
\<close>

theorem convergence:
  assumes "openAPI (settings (loadSettings w)) \<noteq> ''''"
    and "fetchMemosWithResource (openAPI (settings (loadSettings w))) = Inr res"
    and "lastSyncTime (settings (loadSettings w)) = None"
    and "distinct (map memo_id (memos res))"
    and "distinct (map filename (resources res))"
    and "\<forall>r \<in> set (resources res).
           resourcePath (folderToSync (settings (loadSettings w))) r \<notin> set (folders w)"
  shows "(\<forall>m \<in> set (memos res).
            lookup (sync fetchMemosWithResource no_faults now w)
              (memoPath (folderToSync (settings (loadSettings w))) m) = Some (Text (memo_content m)))
    \<and> (\<forall>p. lookup (sync fetchMemosWithResource no_faults now w) p \<noteq> None
            \<and> in_folder (folderToSync (settings (loadSettings w)) @ ''/memos'') p \<longrightarrow>
            p \<in> set (map (memoPath (folderToSync (settings (loadSettings w)))) (memos res)))
    \<and> (\<forall>r \<in> set (resources res).
            lookup (sync fetchMemosWithResource no_faults now w)
              (resourcePath (folderToSync (settings (loadSettings w))) r) =
            (case lookup w (resourcePath (folderToSync (settings (loadSettings w))) r) of
               Some c \<Rightarrow> Some c | None \<Rightarrow> Some (Binary (resource_content r))))
    \<and> (\<forall>p. lookup (sync fetchMemosWithResource no_faults now w) p \<noteq> None
            \<and> in_folder (folderToSync (settings (loadSettings w)) @ ''/resources'') p \<longrightarrow>
            p \<in> set (map (resourcePath (folderToSync (settings (loadSettings w)))) (resources res)))"
proof -
  define F where "F = folderToSync (settings (loadSettings w))"
  have eq: "sync fetchMemosWithResource no_faults now w =
      snd (apply_snapshot no_faults now F None res (started res w))"
    using sync_no_faults[where fetchMemosWithResource = fetchMemosWithResource and w = w
        and res = res and now = now, OF assms(1,2)] assms(3) by (simp add: F_def)
  note c = apply_snapshot_converges[where now = now and F = F and lst = None
      and u = "started res w", OF assms(4)]
  have ns: "\<not> skip_memo None m" for m by (simp add: skip_memo_def)
  have nf: "\<forall>r \<in> set (resources res). resourcePath F r \<notin> set (folders (started res w))"
    using assms(6) by (simp add: F_def)
  show ?thesis
    unfolding F_def[symmetric] eq
    using c(1) c(2) c(3) c(5)[OF assms(5)] ns nf by (simp del: set_map)
qed

theorem convergence_witness:
  "lookup (sync example_fetch no_faults 5 used_vault) ''V/memos/a.md'' = Some (Text ''hello'')
   \<and> lookup (sync example_fetch no_faults 5 used_vault) ''V/memos/b.md'' = None
   \<and> lookup (sync example_fetch no_faults 5 used_vault) ''V/resources/img.png'' = Some (Binary [1])
   \<and> lookup (sync example_fetch no_faults 5 used_vault) ''V/resources/x.bin'' = None"
proof -
  have h1: "openAPI (settings (loadSettings used_vault)) \<noteq> ''''" by code_simp
  have h2: "example_fetch (openAPI (settings (loadSettings used_vault))) = Inr example_snapshot"
    by code_simp
  have h3: "lastSyncTime (settings (loadSettings used_vault)) = None" by code_simp
  have h4: "distinct (map memo_id (memos example_snapshot))" by code_simp
  have h5: "distinct (map filename (resources example_snapshot))" by code_simp
  have h6: "\<forall>r \<in> set (resources example_snapshot).
      resourcePath (folderToSync (settings (loadSettings used_vault))) r \<notin> set (folders used_vault)"
    by code_simp
  note t = convergence[where w = used_vault and fetchMemosWithResource = example_fetch
      and res = example_snapshot and now = 5, OF h1 h2 h3 h4 h5 h6, unfolded used_vault_settings]
  have m: "hello_memo \<in> set (memos example_snapshot)" by code_simp
  have r: "img_resource \<in> set (resources example_snapshot)" by code_simp
  have p: "memoPath ''V'' hello_memo = ''V/memos/a.md''"
      "resourcePath ''V'' img_resource = ''V/resources/img.png''"
      "memo_content hello_memo = ''hello''"
      "lookup used_vault ''V/resources/img.png'' = Some (Binary [1])"
    by code_simp+
  have o: "in_folder (''V'' @ ''/memos'') ''V/memos/b.md''"
      "''V/memos/b.md'' \<notin> set (map (memoPath ''V'') (memos example_snapshot))"
      "in_folder (''V'' @ ''/resources'') ''V/resources/x.bin''"
      "''V/resources/x.bin'' \<notin> set (map (resourcePath ''V'') (resources example_snapshot))"
    by code_simp+
  from t m have "lookup (sync example_fetch no_faults 5 used_vault) (memoPath ''V'' hello_memo) =
      Some (Text (memo_content hello_memo))" by blast
  moreover from t r have "lookup (sync example_fetch no_faults 5 used_vault) (resourcePath ''V'' img_resource) =
      (case lookup used_vault (resourcePath ''V'' img_resource) of
               Some c \<Rightarrow> Some c | None \<Rightarrow> Some (Binary (resource_content img_resource)))" by blast
  moreover from t o(1,2) have "lookup (sync example_fetch no_faults 5 used_vault) ''V/memos/b.md'' = None"
    by blast
  moreover from t o(3,4) have "lookup (sync example_fetch no_faults 5 used_vault) ''V/resources/x.bin'' = None"
    by blast
  ultimately show ?thesis by (simp add: p)
qed

text \<open>
  C2 (as stated, refuted). With the stored \<open>lastSyncTime\<close> equal to 0, a memo whose
  \<open>updatedTs * 1000\<close> is below 0 is not skipped: its file is rewritten.
\<close>

theorem skip_at_zero_checkpoint_counterexample:
  "lastSyncTime (settings (loadSettings zero_vault)) = Some 0
   \<and> backdated_fetch ''secret'' = Inr backdated_snapshot
   \<and> backdated_memo \<in> set (memos backdated_snapshot)
   \<and> updatedTs backdated_memo * 1000 < 0
   \<and> lookup zero_vault (memoPath ''V'' backdated_memo) = Some (Text ''old'')
   \<and> lookup (sync backdated_fetch no_faults 5 zero_vault) (memoPath ''V'' backdated_memo) =
        Some (Text ''rewritten'')"
  by code_simp

text \<open>
  C2 (amended). In every run whose stored \<open>lastSyncTime\<close> is a \<open>T\<close> other than 0,
  a memo of the snapshot with \<open>updatedTs * 1000 < T\<close> is skipped: no write to its
  file is issued and the file holds after the run what it held before, whatever the
  remote content and whichever adapter calls fail. Memo ids are unique in the snapshot.
\<close>

theorem skipped_memo_untouched:
  assumes "lastSyncTime (settings (loadSettings w)) = Some T" and "T \<noteq> 0"
    and "fetchMemosWithResource (openAPI (settings (loadSettings w))) = Inr res"
    and "distinct (map memo_id (memos res))"
    and "m \<in> set (memos res)" and "updatedTs m * 1000 < T"
  shows "lookup (sync fetchMemosWithResource faulty now w)
           (memoPath (folderToSync (settings (loadSettings w))) m) =
         lookup w (memoPath (folderToSync (settings (loadSettings w))) m)
       \<and> OpWrite (memoPath (folderToSync (settings (loadSettings w))) m)
           \<notin> set (issued w (sync fetchMemosWithResource faulty now w))"
proof (cases "openAPI (settings (loadSettings w)) = ''''")
  case True
  then show ?thesis by (simp add: sync_def Let_def lookup_def issued_def)
next
  case False
  note sf = sync_fetched_fields[where fetchMemosWithResource = fetchMemosWithResource
      and w = w and res = res and faulty = faulty and now = now, OF False assms(3)]
  define F where "F = folderToSync (settings (loadSettings w))"
  define lst where "lst = lastSyncTime (settings (loadSettings w))"
  have skip: "skip_memo lst m"
    using assms(1,2,6) by (simp add: skip_memo_def lst_def)
  have others: "\<forall>m' \<in> set (memos res). skip_memo lst m' \<or> memoPath F m' \<noteq> memoPath F m"
    using skip assms(4,5) by (auto dest: distinct_map_eq)
  have "lookup (snd (apply_snapshot faulty now F lst res (started res w))) (memoPath F m) =
        lookup (started res w) (memoPath F m)"
    using others assms(5) by (intro apply_snapshot_lookup_unchanged) auto
  then have A: "lookup (sync fetchMemosWithResource faulty now w) (memoPath F m) = lookup w (memoPath F m)"
    using sf(2) by (simp add: F_def lst_def)
  obtain E R D where t: "set (issued w (sync fetchMemosWithResource faulty now w)) =
      set E \<union> (if reaches faulty F w then
          set (map (\<lambda>m. OpWrite (memoPath F m)) (filter (\<lambda>m. \<not> skip_memo lst m) (memos res)))
            \<union> set R \<union> set D
        else {})"
    and p: "folder_calls E" "resource_calls F res w R" "orphan_calls faulty F res w D"
    using sync_trace[where fetchMemosWithResource = fetchMemosWithResource and w = w
        and res = res and F = F and lst = lst and faulty = faulty and now = now,
        OF False assms(3) F_def lst_def] by blast
  have B: "OpWrite (memoPath F m) \<notin> set (issued w (sync fetchMemosWithResource faulty now w))"
    unfolding t using p others
    by (auto simp: folder_calls_def resource_calls_def orphan_calls_def)
  from A B show ?thesis unfolding F_def by simp
qed

theorem skipped_memo_untouched_witness:
  "lastSyncTime (settings (loadSettings checkpointed_vault)) = Some 2000000
   \<and> lookup (sync example_fetch no_faults 5000000 checkpointed_vault) ''V/memos/a.md'' = Some (Text ''old'')
   \<and> OpWrite ''V/memos/a.md'' \<notin> set (issued checkpointed_vault
         (sync example_fetch no_faults 5000000 checkpointed_vault))"
proof -
  define m where "m = \<lparr>memo_id = ''a'', memo_content = ''hello'', updatedTs = 1000\<rparr>"
  have h1: "lastSyncTime (settings (loadSettings checkpointed_vault)) = Some 2000000" by code_simp
  have h2: "(2000000 :: int) \<noteq> 0" by simp
  have h3: "example_fetch (openAPI (settings (loadSettings checkpointed_vault))) = Inr example_snapshot"
    by code_simp
  have h4: "distinct (map memo_id (memos example_snapshot))" by code_simp
  have h5: "m \<in> set (memos example_snapshot)" unfolding m_def by code_simp
  have h6: "updatedTs m * 1000 < 2000000" unfolding m_def by simp
  have p: "memoPath (folderToSync (settings (loadSettings checkpointed_vault))) m = ''V/memos/a.md''"
    unfolding m_def by code_simp
  have l: "lookup checkpointed_vault ''V/memos/a.md'' = Some (Text ''old'')" by code_simp
  show ?thesis
    using skipped_memo_untouched[where w = checkpointed_vault and T = 2000000
        and fetchMemosWithResource = example_fetch and res = example_snapshot and m = m
        and faulty = no_faults and now = 5000000, OF h1 h2 h3 h4 h5 h6] h1 p l
    by simp
qed

text \<open>
  C3 (orphan pruning). In a run with a non-empty credential and a successful fetch in
  which no adapter call fails, the paths for which a removal is issued are exactly the
  files directly in the memos folder that are not paths of memos of the snapshot,
  together with the files directly in the resources folder that are not paths of
  resources of the snapshot. Those files are gone afterwards, every other file of the vault
  is still there, and no removal is issued for the file of a memo or of a resource of the
  snapshot (a resource is not deleted for not being a memo, nor a memo for not being a
  resource).
\<close>

theorem orphans_pruned:
  assumes "openAPI (settings (loadSettings w)) \<noteq> ''''"
    and "fetchMemosWithResource (openAPI (settings (loadSettings w))) = Inr res"
  shows "(\<forall>p. OpRemove p \<in> set (issued w (sync fetchMemosWithResource no_faults now w)) \<longleftrightarrow>
              memo_orphan (folderToSync (settings (loadSettings w))) res w p
            \<or> resource_orphan (folderToSync (settings (loadSettings w))) res w p)
    \<and> (\<forall>p. memo_orphan (folderToSync (settings (loadSettings w))) res w p
            \<or> resource_orphan (folderToSync (settings (loadSettings w))) res w p \<longrightarrow>
            lookup (sync fetchMemosWithResource no_faults now w) p = None)
    \<and> (\<forall>p. lookup w p \<noteq> None
            \<and> \<not> memo_orphan (folderToSync (settings (loadSettings w))) res w p
            \<and> \<not> resource_orphan (folderToSync (settings (loadSettings w))) res w p \<longrightarrow>
            lookup (sync fetchMemosWithResource no_faults now w) p \<noteq> None)
    \<and> (\<forall>m \<in> set (memos res).
            OpRemove (memoPath (folderToSync (settings (loadSettings w))) m)
              \<notin> set (issued w (sync fetchMemosWithResource no_faults now w)))
    \<and> (\<forall>r \<in> set (resources res).
            OpRemove (resourcePath (folderToSync (settings (loadSettings w))) r)
              \<notin> set (issued w (sync fetchMemosWithResource no_faults now w)))"
proof -
  define F where "F = folderToSync (settings (loadSettings w))"
  define lst where "lst = lastSyncTime (settings (loadSettings w))"
  define w' where "w' = sync fetchMemosWithResource no_faults now w"
  define w2 where "w2 = snd (ensure_folder no_faults (F @ ''/resources'') ''Created resources folder.''
                (snd (ensure_folder no_faults (F @ ''/memos'') ''Created memos folder.'' (started res w))))"
  have eq: "w' = snd (apply_snapshot no_faults now F lst res (started res w))"
    using sync_no_faults[where fetchMemosWithResource = fetchMemosWithResource and w = w
        and res = res and now = now, OF assms(1,2)] by (simp add: F_def lst_def w'_def)
  have reach: "reaches no_faults F w" by (simp add: reaches_def)
  obtain E R D where t0: "set (issued w w') =
      set E \<union> (if reaches no_faults F w then
          set (map (\<lambda>m. OpWrite (memoPath F m)) (filter (\<lambda>m. \<not> skip_memo lst m) (memos res)))
            \<union> set R \<union> set D
        else {})"
    and p: "folder_calls E" "resource_calls F res w R" "orphan_calls no_faults F res w D"
    using sync_trace[where fetchMemosWithResource = fetchMemosWithResource and w = w
        and res = res and F = F and lst = lst and faulty = no_faults and now = now,
        OF assms F_def lst_def] unfolding w'_def by blast
  have t: "set (issued w w') =
      set E \<union> set (map (\<lambda>m. OpWrite (memoPath F m)) (filter (\<lambda>m. \<not> skip_memo lst m) (memos res)))
        \<union> set R \<union> set D"
    using t0 reach by auto
  have A: "OpRemove p \<in> set (issued w w') \<longleftrightarrow> memo_orphan F res w p \<or> resource_orphan F res w p" for p
    unfolding t using p by (auto simp: folder_calls_def resource_calls_def orphan_calls_def)
  have fin: "lookup w' p =
     (if in_folder (F @ ''/memos'') p \<and> p \<notin> set (map (memoPath F) (memos res))
          \<or> in_folder (F @ ''/resources'') p \<and> p \<notin> set (map (resourcePath F) (resources res))
      then None else lookup (snd (sync_items no_faults F lst res w2)) p)" for p
    unfolding eq w2_def by (subst apply_snapshot_lookup_completed) (simp_all del: set_map)
  have l2: "lookup w2 p = lookup w p" for p by (simp add: w2_def)
  have B: "memo_orphan F res w p \<or> resource_orphan F res w p \<Longrightarrow> lookup w' p = None" for p
    unfolding fin by (auto simp: memo_orphan_def resource_orphan_def simp del: set_map)
  have C: "lookup w p \<noteq> None \<and> \<not> memo_orphan F res w p \<and> \<not> resource_orphan F res w p
            \<Longrightarrow> lookup w' p \<noteq> None" for p
    unfolding fin using sync_items_lookup_mono[of w2 p no_faults F lst res] l2[of p]
    by (auto simp: memo_orphan_def resource_orphan_def simp del: set_map)
  have D1: "\<not> memo_orphan F res w (memoPath F m) \<and> \<not> resource_orphan F res w (memoPath F m)"
    if "m \<in> set (memos res)" for m
    using that by (simp add: memo_orphan_def resource_orphan_def)
  have D2: "\<not> memo_orphan F res w (resourcePath F r) \<and> \<not> resource_orphan F res w (resourcePath F r)"
    if "r \<in> set (resources res)" for r
    using that by (simp add: memo_orphan_def resource_orphan_def)
  show ?thesis
    unfolding F_def[symmetric] w'_def[symmetric]
    using A B C D1 D2 by blast
qed

theorem orphans_pruned_witness:
  "OpRemove ''V/memos/b.md'' \<in> set (issued used_vault (sync example_fetch no_faults 5 used_vault))
   \<and> OpRemove ''V/resources/x.bin'' \<in> set (issued used_vault (sync example_fetch no_faults 5 used_vault))
   \<and> OpRemove ''V/memos/a.md'' \<notin> set (issued used_vault (sync example_fetch no_faults 5 used_vault))
   \<and> OpRemove ''V/resources/img.png'' \<notin> set (issued used_vault (sync example_fetch no_faults 5 used_vault))
   \<and> lookup (sync example_fetch no_faults 5 used_vault) ''V/memos/b.md'' = None
   \<and> lookup (sync example_fetch no_faults 5 used_vault) ''V/resources/img.png'' \<noteq> None"
proof -
  have h1: "openAPI (settings (loadSettings used_vault)) \<noteq> ''''" by code_simp
  have h2: "example_fetch (openAPI (settings (loadSettings used_vault))) = Inr example_snapshot"
    by code_simp
  note t = orphans_pruned[where w = used_vault and fetchMemosWithResource = example_fetch
      and res = example_snapshot and now = 5, OF h1 h2, unfolded used_vault_settings]
  have o: "memo_orphan ''V'' example_snapshot used_vault ''V/memos/b.md''"
      "resource_orphan ''V'' example_snapshot used_vault ''V/resources/x.bin''"
      "\<not> memo_orphan ''V'' example_snapshot used_vault ''V/memos/a.md''"
      "\<not> resource_orphan ''V'' example_snapshot used_vault ''V/memos/a.md''"
      "\<not> memo_orphan ''V'' example_snapshot used_vault ''V/resources/img.png''"
      "\<not> resource_orphan ''V'' example_snapshot used_vault ''V/resources/img.png''"
      "lookup used_vault ''V/resources/img.png'' \<noteq> None"
    by code_simp+
  from t o show ?thesis by blast
qed

text \<open>
  C4 (resource write-once). In every run, whichever adapter calls fail: a resource of
  the snapshot whose file exists before the run keeps the content it had, and no binary
  write to that path is issued.
\<close>

theorem resource_write_once:
  assumes "fetchMemosWithResource (openAPI (settings (loadSettings w))) = Inr res"
    and "r \<in> set (resources res)"
    and "lookup w (resourcePath (folderToSync (settings (loadSettings w))) r) = Some c"
  shows "lookup (sync fetchMemosWithResource faulty now w)
           (resourcePath (folderToSync (settings (loadSettings w))) r) = Some c
       \<and> OpWriteBinary (resourcePath (folderToSync (settings (loadSettings w))) r)
           \<notin> set (issued w (sync fetchMemosWithResource faulty now w))"
proof (cases "openAPI (settings (loadSettings w)) = ''''")
  case True
  then show ?thesis using assms(3) by (simp add: sync_def Let_def lookup_def issued_def)
next
  case False
  note sf = sync_fetched_fields[where fetchMemosWithResource = fetchMemosWithResource
      and w = w and res = res and faulty = faulty and now = now, OF False assms(1)]
  define F where "F = folderToSync (settings (loadSettings w))"
  define lst where "lst = lastSyncTime (settings (loadSettings w))"
  have c: "lookup w (resourcePath F r) = Some c" using assms(3) by (simp add: F_def)
  have "lookup (snd (apply_snapshot faulty now F lst res (started res w))) (resourcePath F r) =
        lookup (started res w) (resourcePath F r)"
    using c assms(2) by (intro apply_snapshot_lookup_unchanged) auto
  then have A: "lookup (sync fetchMemosWithResource faulty now w) (resourcePath F r) = Some c"
    using sf(2) c by (simp add: F_def lst_def)
  obtain E R D where t: "set (issued w (sync fetchMemosWithResource faulty now w)) =
      set E \<union> (if reaches faulty F w then
          set (map (\<lambda>m. OpWrite (memoPath F m)) (filter (\<lambda>m. \<not> skip_memo lst m) (memos res)))
            \<union> set R \<union> set D
        else {})"
    and p: "folder_calls E" "resource_calls F res w R" "orphan_calls faulty F res w D"
    using sync_trace[where fetchMemosWithResource = fetchMemosWithResource and w = w
        and res = res and F = F and lst = lst and faulty = faulty and now = now,
        OF False assms(1) F_def lst_def] by blast
  have B: "OpWriteBinary (resourcePath F r) \<notin> set (issued w (sync fetchMemosWithResource faulty now w))"
    unfolding t using p c
    by (auto simp: folder_calls_def resource_calls_def orphan_calls_def)
  from A B show ?thesis unfolding F_def by simp
qed

theorem resource_write_once_witness:
  "lookup used_vault ''V/resources/img.png'' = Some (Binary [1])
   \<and> resource_content img_resource \<noteq> [1]
   \<and> lookup (sync example_fetch no_faults 5 used_vault) ''V/resources/img.png'' = Some (Binary [1])
   \<and> OpWriteBinary ''V/resources/img.png''
         \<notin> set (issued used_vault (sync example_fetch no_faults 5 used_vault))"
proof -
  have h1: "example_fetch (openAPI (settings (loadSettings used_vault))) = Inr example_snapshot"
    by code_simp
  have h2: "img_resource \<in> set (resources example_snapshot)" by code_simp
  have h3: "lookup used_vault (resourcePath (folderToSync (settings (loadSettings used_vault))) img_resource) =
      Some (Binary [1])" by code_simp
  have p: "resourcePath (folderToSync (settings (loadSettings used_vault))) img_resource =
      ''V/resources/img.png''" by code_simp
  have c: "resource_content img_resource \<noteq> [1]" by code_simp
  show ?thesis
    using resource_write_once[where w = used_vault and fetchMemosWithResource = example_fetch
      and res = example_snapshot and r = img_resource and c = "Binary [1]" and faulty = no_faults
      and now = 5, OF h1 h2 h3] h3 c
    unfolding p by simp
qed

text \<open>
  C5 (fail-fast on fetch error). When the fetch fails, the run issues no adapter call
  at all: files, folders and the persisted data (so also \<open>lastSyncTime\<close>) are
  unchanged. The user sees the start notice and the failure notice, and the error goes to
  the console.
\<close>

theorem fetch_error_fails_fast:
  assumes "openAPI (settings (loadSettings w)) \<noteq> ''''"
    and "fetchMemosWithResource (openAPI (settings (loadSettings w))) = Inl e"
  shows "files (sync fetchMemosWithResource faulty now w) = files w
    \<and> folders (sync fetchMemosWithResource faulty now w) = folders w
    \<and> data (sync fetchMemosWithResource faulty now w) = data w
    \<and> calls (sync fetchMemosWithResource faulty now w) = calls w
    \<and> fetched (sync fetchMemosWithResource faulty now w) =
          fetched w @ [openAPI (settings (loadSettings w))]
    \<and> console (sync fetchMemosWithResource faulty now w) = console w @ [e]
    \<and> notices (sync fetchMemosWithResource faulty now w) =
          notices w @ [(''Start syncing memos.'', None),
            (''Failed to sync memos. Please check your OpenAPI key and network.'', Some 0)]"
  using assms by (simp add: sync_def sync_try_def Let_def)

theorem fetch_error_fails_fast_witness:
  "files (sync failing_fetch no_faults 5 used_vault) = files used_vault
   \<and> folders (sync failing_fetch no_faults 5 used_vault) = folders used_vault
   \<and> data (sync failing_fetch no_faults 5 used_vault) = data used_vault
   \<and> console (sync failing_fetch no_faults 5 used_vault) = [NetworkError]"
proof -
  have h1: "openAPI (settings (loadSettings used_vault)) \<noteq> ''''"
    by code_simp
  have h2: "failing_fetch (openAPI (settings (loadSettings used_vault))) = Inl NetworkError"
    by (simp add: failing_fetch_def)
  have c: "console used_vault = []"
    by (simp add: used_vault_def example_vault_def)
  show ?thesis
    using fetch_error_fails_fast[of used_vault failing_fetch NetworkError no_faults 5, OF h1 h2] c
    by simp
qed




text \<open>
  C7 (checkpoint, frame). A run that completes persists the loaded settings with
  \<open>lastSyncTime\<close> set to the time of completion, every other field as it was loaded at
  the start of the run; a run that does not complete leaves the persisted data as it was.
\<close>

theorem checkpoint_on_success_only:
  "(run_completes fetchMemosWithResource faulty w \<longrightarrow>
      data (sync fetchMemosWithResource faulty now w) =
        \<lparr>s_openAPI = Some (openAPI (settings (loadSettings w))),
         s_folderToSync = Some (folderToSync (settings (loadSettings w))),
         s_debug = Some (debug (settings (loadSettings w))),
         s_lastSyncTime = Some now\<rparr>)
   \<and> (\<not> run_completes fetchMemosWithResource faulty w \<longrightarrow>
      data (sync fetchMemosWithResource faulty now w) = data w)"
proof (cases "openAPI (settings (loadSettings w)) = ''''")
  case True
  then show ?thesis by (simp add: run_completes_def sync_def Let_def)
next
  case key: False
  show ?thesis
  proof (cases "fetchMemosWithResource (openAPI (settings (loadSettings w)))")
    case (Inl e)
    then show ?thesis using key by (simp add: run_completes_def sync_def sync_try_def Let_def)
  next
    case (Inr res)
    note sf = sync_fetched_fields[where fetchMemosWithResource = fetchMemosWithResource
      and w = w and res = res and faulty = faulty and now = now, OF key Inr]
    have "run_completes fetchMemosWithResource faulty w \<longleftrightarrow>
        fst (apply_snapshot faulty now (folderToSync (settings (loadSettings w)))
             (lastSyncTime (settings (loadSettings w))) res (started res w)) = Inr ()"
      using key Inr by (simp add: run_completes_def apply_snapshot_completes Let_def)
    then show ?thesis
      unfolding sf(4) apply_snapshot_data by (simp add: checkpoint_def)
  qed
qed

theorem checkpoint_on_success_only_witness:
  "run_completes example_fetch no_faults example_vault
   \<and> data (sync example_fetch no_faults 5 example_vault) =
       \<lparr>s_openAPI = Some ''secret'', s_folderToSync = Some ''V'', s_debug = Some False,
        s_lastSyncTime = Some 5\<rparr>
   \<and> \<not> run_completes failing_fetch no_faults example_vault
   \<and> data (sync failing_fetch no_faults 5 example_vault) = data example_vault"
proof -
  have h1: "run_completes example_fetch no_faults example_vault" by code_simp
  have h2: "\<not> run_completes failing_fetch no_faults example_vault" by code_simp
  have s: "settings (loadSettings example_vault) =
      \<lparr>openAPI = ''secret'', folderToSync = ''V'', debug = False, lastSyncTime = None\<rparr>"
    by code_simp
  show ?thesis
    using checkpoint_on_success_only[of example_fetch no_faults example_vault 5]
      checkpoint_on_success_only[of failing_fetch no_faults example_vault 5] h1 h2 s
    by simp
qed

text \<open>
  C8 (empty credential). A run that starts with an empty credential shows the notice
  that asks for the key and stops: no fetch is made, no adapter call is issued, no file or
  folder changes, and the persisted data is unchanged.
\<close>

theorem empty_credential_halts:
  assumes "openAPI (settings (loadSettings w)) = ''''"
  shows "files (sync fetchMemosWithResource faulty now w) = files w
    \<and> folders (sync fetchMemosWithResource faulty now w) = folders w
    \<and> data (sync fetchMemosWithResource faulty now w) = data w
    \<and> calls (sync fetchMemosWithResource faulty now w) = calls w
    \<and> fetched (sync fetchMemosWithResource faulty now w) = fetched w
    \<and> console (sync fetchMemosWithResource faulty now w) = console w
    \<and> notices (sync fetchMemosWithResource faulty now w) =
          notices w @ [(''Please enter your OpenAPI key.'', None)]"
  using assms by (simp add: sync_def Let_def)

theorem empty_credential_halts_witness:
  "openAPI (settings (loadSettings unconfigured_vault)) = ''''
   \<and> files (sync example_fetch no_faults 5 unconfigured_vault) = files unconfigured_vault
   \<and> calls (sync example_fetch no_faults 5 unconfigured_vault) = []
   \<and> fetched (sync example_fetch no_faults 5 unconfigured_vault) = []
   \<and> data (sync example_fetch no_faults 5 unconfigured_vault) = data unconfigured_vault"
proof -
  have h: "openAPI (settings (loadSettings unconfigured_vault)) = ''''"
    by code_simp
  have c: "calls unconfigured_vault = []" "fetched unconfigured_vault = []"
    by (simp_all add: unconfigured_vault_def example_vault_def)
  show ?thesis
    using empty_credential_halts[OF h, of example_fetch no_faults 5] h c by simp
qed

text \<open>
  C9 (idempotence). After a run with a non-empty credential, a successful fetch, no
  \<open>lastSyncTime\<close> and no failing adapter call on a snapshot with unique memo ids, a
  second run against the same snapshot with the settings of the first (no cutoff) leaves
  the list of files and the list of folders exactly as the first run left them, and
  issues no removal. The same holds for the files and folders when the second run starts
  from the data that the first run persisted.
\<close>

theorem idempotence:
  assumes "openAPI (settings (loadSettings w)) \<noteq> ''''"
    and "fetchMemosWithResource (openAPI (settings (loadSettings w))) = Inr res"
    and "lastSyncTime (settings (loadSettings w)) = None"
    and "distinct (map memo_id (memos res))"
  shows "files (sync fetchMemosWithResource no_faults now2
                 ((sync fetchMemosWithResource no_faults now1 w)\<lparr>data := data w\<rparr>)) =
           files (sync fetchMemosWithResource no_faults now1 w)
    \<and> folders (sync fetchMemosWithResource no_faults now2
                 ((sync fetchMemosWithResource no_faults now1 w)\<lparr>data := data w\<rparr>)) =
           folders (sync fetchMemosWithResource no_faults now1 w)
    \<and> (\<forall>p. OpRemove p \<notin> set (issued ((sync fetchMemosWithResource no_faults now1 w)\<lparr>data := data w\<rparr>)
               (sync fetchMemosWithResource no_faults now2
                 ((sync fetchMemosWithResource no_faults now1 w)\<lparr>data := data w\<rparr>))))
    \<and> files (sync fetchMemosWithResource no_faults now2
                 (sync fetchMemosWithResource no_faults now1 w)) =
           files (sync fetchMemosWithResource no_faults now1 w)
    \<and> folders (sync fetchMemosWithResource no_faults now2
                 (sync fetchMemosWithResource no_faults now1 w)) =
           folders (sync fetchMemosWithResource no_faults now1 w)"
proof -
  define w1 where "w1 = sync fetchMemosWithResource no_faults now1 w"
  have rc: "run_completes fetchMemosWithResource no_faults w"
    using assms(1,2) by (simp add: run_completes_def Let_def)
  have dat: "data w1 = \<lparr>s_openAPI = Some (openAPI (settings (loadSettings w))),
         s_folderToSync = Some (folderToSync (settings (loadSettings w))),
         s_debug = Some (debug (settings (loadSettings w))),
         s_lastSyncTime = Some now1\<rparr>"
    unfolding w1_def using rc by (rule completed_run_data)
  have a: "files (sync fetchMemosWithResource no_faults now2 (w1\<lparr>data := data w\<rparr>)) = files (w1\<lparr>data := data w\<rparr>)
    \<and> folders (sync fetchMemosWithResource no_faults now2 (w1\<lparr>data := data w\<rparr>)) = folders (w1\<lparr>data := data w\<rparr>)
    \<and> (\<forall>p. OpRemove p \<notin> set (issued (w1\<lparr>data := data w\<rparr>)
             (sync fetchMemosWithResource no_faults now2 (w1\<lparr>data := data w\<rparr>))))"
    using assms
    by (intro rerun_noop[where w = w and res = res and earlier = now1]) (simp_all add: w1_def)
  have b: "files (sync fetchMemosWithResource no_faults now2 w1) = files w1
    \<and> folders (sync fetchMemosWithResource no_faults now2 w1) = folders w1
    \<and> (\<forall>p. OpRemove p \<notin> set (issued w1 (sync fetchMemosWithResource no_faults now2 w1)))"
    using assms dat
    by (intro rerun_noop[where w = w and res = res and earlier = now1])
       (simp_all add: w1_def assign_settings_def)
  from a b show ?thesis unfolding w1_def by simp
qed

theorem idempotence_witness:
  "files (sync example_fetch no_faults 9
            ((sync example_fetch no_faults 5 used_vault)\<lparr>data := data used_vault\<rparr>)) =
     [(''V/memos/a.md'', Text ''hello''), (''V/resources/img.png'', Binary [1])]
   \<and> files (sync example_fetch no_faults 5 used_vault) =
     [(''V/memos/a.md'', Text ''hello''), (''V/resources/img.png'', Binary [1])]
   \<and> folders (sync example_fetch no_faults 9
            ((sync example_fetch no_faults 5 used_vault)\<lparr>data := data used_vault\<rparr>)) =
       folders (sync example_fetch no_faults 5 used_vault)
   \<and> OpRemove ''V/memos/b.md'' \<notin> set (issued
         ((sync example_fetch no_faults 5 used_vault)\<lparr>data := data used_vault\<rparr>)
         (sync example_fetch no_faults 9
            ((sync example_fetch no_faults 5 used_vault)\<lparr>data := data used_vault\<rparr>)))
   \<and> files (sync example_fetch no_faults 9 (sync example_fetch no_faults 5 used_vault)) =
       files (sync example_fetch no_faults 5 used_vault)"
proof -
  have h1: "openAPI (settings (loadSettings used_vault)) \<noteq> ''''" by code_simp
  have h2: "example_fetch (openAPI (settings (loadSettings used_vault))) = Inr example_snapshot"
    by code_simp
  have h3: "lastSyncTime (settings (loadSettings used_vault)) = None" by code_simp
  have h4: "distinct (map memo_id (memos example_snapshot))" by code_simp
  have f: "files (sync example_fetch no_faults 5 used_vault) =
     [(''V/memos/a.md'', Text ''hello''), (''V/resources/img.png'', Binary [1])]"
    by code_simp
  show ?thesis
    using idempotence[where w = used_vault and fetchMemosWithResource = example_fetch
      and res = example_snapshot and ?now1.0 = 5 and ?now2.0 = 9, OF h1 h2 h3 h4] f
    by simp
qed

text \<open>
  C10 (zero checkpoint). When the stored \<open>lastSyncTime\<close> is 0, the guard of line 85
  is false for every memo; the \<open>try\<close> block run with the loaded \<open>lastSyncTime\<close> is
  the \<open>try\<close> block run with no \<open>lastSyncTime\<close>; in every run that reaches the loop
  over the memos a write is issued for every memo of the snapshot; and when the memo ids
  of the snapshot are unique and the write of a memo does not fail, the file of the memo
  holds the memo's content after the run, however old the memo is.
\<close>

theorem zero_checkpoint_as_absent:
  assumes "s_lastSyncTime (data w) = Some 0"
  shows "\<not> skip_memo (lastSyncTime (settings (loadSettings w))) m
    \<and> sync_try fetchMemosWithResource faulty now key folder (lastSyncTime (settings (loadSettings w))) v =
         sync_try fetchMemosWithResource faulty now key folder None v
    \<and> (openAPI (settings (loadSettings w)) \<noteq> '''' \<and>
         fetchMemosWithResource (openAPI (settings (loadSettings w))) = Inr res \<and>
         reaches faulty (folderToSync (settings (loadSettings w))) w \<and> m \<in> set (memos res) \<longrightarrow>
         OpWrite (memoPath (folderToSync (settings (loadSettings w))) m)
           \<in> set (issued w (sync fetchMemosWithResource faulty now w)))
    \<and> (openAPI (settings (loadSettings w)) \<noteq> '''' \<and>
         fetchMemosWithResource (openAPI (settings (loadSettings w))) = Inr res \<and>
         reaches faulty (folderToSync (settings (loadSettings w))) w \<and> m \<in> set (memos res) \<and>
         distinct (map memo_id (memos res)) \<and>
         \<not> faulty (OpWrite (memoPath (folderToSync (settings (loadSettings w))) m)) \<longrightarrow>
         lookup (sync fetchMemosWithResource faulty now w)
           (memoPath (folderToSync (settings (loadSettings w))) m) = Some (Text (memo_content m)))"
proof (intro conjI)
  have z: "lastSyncTime (settings (loadSettings w)) = Some 0"
    using assms by (simp add: assign_settings_def)
  show s: "\<not> skip_memo (lastSyncTime (settings (loadSettings w))) m"
    unfolding z by (simp add: skip_memo_def)
  show "sync_try fetchMemosWithResource faulty now key folder (lastSyncTime (settings (loadSettings w))) v =
         sync_try fetchMemosWithResource faulty now key folder None v"
    unfolding z by (rule sync_try_zero)
  show "openAPI (settings (loadSettings w)) \<noteq> '''' \<and>
         fetchMemosWithResource (openAPI (settings (loadSettings w))) = Inr res \<and>
         reaches faulty (folderToSync (settings (loadSettings w))) w \<and> m \<in> set (memos res) \<longrightarrow>
         OpWrite (memoPath (folderToSync (settings (loadSettings w))) m)
           \<in> set (issued w (sync fetchMemosWithResource faulty now w))"
  proof (intro impI, elim conjE)
    assume key: "openAPI (settings (loadSettings w)) \<noteq> ''''"
      and fetch: "fetchMemosWithResource (openAPI (settings (loadSettings w))) = Inr res"
      and reach: "reaches faulty (folderToSync (settings (loadSettings w))) w"
      and m: "m \<in> set (memos res)"
    obtain E R D where t: "set (issued w (sync fetchMemosWithResource faulty now w)) =
      set E \<union> (if reaches faulty (folderToSync (settings (loadSettings w))) w then
          set (map (\<lambda>m. OpWrite (memoPath (folderToSync (settings (loadSettings w))) m))
            (filter (\<lambda>m. \<not> skip_memo (lastSyncTime (settings (loadSettings w))) m) (memos res)))
            \<union> set R \<union> set D
        else {})"
      using sync_trace[where fetchMemosWithResource = fetchMemosWithResource and w = w
        and res = res and faulty = faulty and now = now, OF key fetch refl refl] by blast
    show "OpWrite (memoPath (folderToSync (settings (loadSettings w))) m)
           \<in> set (issued w (sync fetchMemosWithResource faulty now w))"
      unfolding t using reach m s by (simp add: z skip_memo_def)
  qed
  show "openAPI (settings (loadSettings w)) \<noteq> '''' \<and>
         fetchMemosWithResource (openAPI (settings (loadSettings w))) = Inr res \<and>
         reaches faulty (folderToSync (settings (loadSettings w))) w \<and> m \<in> set (memos res) \<and>
         distinct (map memo_id (memos res)) \<and>
         \<not> faulty (OpWrite (memoPath (folderToSync (settings (loadSettings w))) m)) \<longrightarrow>
         lookup (sync fetchMemosWithResource faulty now w)
           (memoPath (folderToSync (settings (loadSettings w))) m) = Some (Text (memo_content m))"
  proof (intro impI, elim conjE)
    assume key: "openAPI (settings (loadSettings w)) \<noteq> ''''"
      and fetch: "fetchMemosWithResource (openAPI (settings (loadSettings w))) = Inr res"
      and reach: "reaches faulty (folderToSync (settings (loadSettings w))) w"
      and m: "m \<in> set (memos res)"
      and d: "distinct (map memo_id (memos res))"
      and nf: "\<not> faulty (OpWrite (memoPath (folderToSync (settings (loadSettings w))) m))"
    define F where "F = folderToSync (settings (loadSettings w))"
    note sf = sync_fetched_fields[where fetchMemosWithResource = fetchMemosWithResource
      and w = w and res = res and faulty = faulty and now = now, OF key fetch]
    have r: "reaches faulty F (started res w)"
      using reach by (simp add: F_def)
    have s0: "\<not> skip_memo (Some 0) m" by (simp add: skip_memo_def)
    have nf': "\<not> faulty (OpWrite (memoPath F m))" using nf by (simp add: F_def)
    have "lookup (snd (apply_snapshot faulty now F (Some 0) res (started res w))) (memoPath F m) =
        Some (Text (memo_content m))"
      using r unfolding reaches_iff
      by (intro apply_snapshot_memo_written m d s0 nf') simp_all
    then show "lookup (sync fetchMemosWithResource faulty now w)
           (memoPath (folderToSync (settings (loadSettings w))) m) = Some (Text (memo_content m))"
      unfolding sf(2) z F_def .
  qed
qed

theorem zero_checkpoint_as_absent_witness:
  "s_lastSyncTime (data zero_vault) = Some 0
   \<and> updatedTs backdated_memo * 1000 < 0
   \<and> \<not> skip_memo (lastSyncTime (settings (loadSettings zero_vault))) backdated_memo
   \<and> OpWrite ''V/memos/a.md''
        \<in> set (issued zero_vault (sync backdated_fetch no_faults 5 zero_vault))
   \<and> lookup zero_vault ''V/memos/a.md'' = Some (Text ''old'')
   \<and> lookup (sync backdated_fetch no_faults 5 zero_vault) ''V/memos/a.md'' = Some (Text ''rewritten'')"
proof -
  have h: "s_lastSyncTime (data zero_vault) = Some 0" by code_simp
  have u: "updatedTs backdated_memo * 1000 < 0" by code_simp
  have c: "openAPI (settings (loadSettings zero_vault)) \<noteq> ''''"
      "backdated_fetch (openAPI (settings (loadSettings zero_vault))) = Inr backdated_snapshot"
      "reaches no_faults (folderToSync (settings (loadSettings zero_vault))) zero_vault"
      "backdated_memo \<in> set (memos backdated_snapshot)"
      "distinct (map memo_id (memos backdated_snapshot))"
    by code_simp+
  have p: "memoPath (folderToSync (settings (loadSettings zero_vault))) backdated_memo = ''V/memos/a.md''"
    by code_simp
  have o: "lookup zero_vault ''V/memos/a.md'' = Some (Text ''old'')"
      "memo_content backdated_memo = ''rewritten''"
    by code_simp+
  show ?thesis
    using zero_checkpoint_as_absent[where w = zero_vault and m = backdated_memo
      and fetchMemosWithResource = backdated_fetch and res = backdated_snapshot
      and faulty = no_faults and now = 5, OF h] h u c o
    unfolding p by simp
qed

end
